theory Spec2Isabelle
  imports Main "HOL-Library.AList" "HOL-Library.Multiset"
begin

section \<open>Strings\<close>

text \<open>
  Go strings are modelled as \<open>string\<close>: one \<open>char\<close> per byte. Every character the
  code tests for is ASCII, so on valid UTF-8 text iterating runes and iterating bytes
  visit the same special characters and copy the same bytes.
\<close>

abbreviation newline :: char where
  "newline \<equiv> CHR 0x0A"

definition HasPrefix :: "string \<Rightarrow> string \<Rightarrow> bool" where
  "HasPrefix s p = (take (length p) s = p)"

definition TrimPrefix :: "string \<Rightarrow> string \<Rightarrow> string" where
  "TrimPrefix s p = (if HasPrefix s p then drop (length p) s else s)"

definition HasSuffix :: "string \<Rightarrow> string \<Rightarrow> bool" where
  "HasSuffix s p = (length p \<le> length s \<and> drop (length s - length p) s = p)"

definition TrimSuffix :: "string \<Rightarrow> string \<Rightarrow> string" where
  "TrimSuffix s p = (if HasSuffix s p then take (length s - length p) s else s)"

definition isSpace :: "char \<Rightarrow> bool" where
  \<comment> \<open>the ASCII part of unicode.IsSpace: tab, LF, VT, FF, CR, space\<close>
  "isSpace c = (c = CHR 0x09 \<or> c = CHR 0x0A \<or> c = CHR 0x0B \<or> c = CHR 0x0C
                \<or> c = CHR 0x0D \<or> c = CHR 0x20)"

definition TrimSpace :: "string \<Rightarrow> string" where
  "TrimSpace s = rev (dropWhile isSpace (rev (dropWhile isSpace s)))"

fun Join :: "string list \<Rightarrow> string \<Rightarrow> string" where
  "Join [] sep = []"
| "Join [x] sep = x"
| "Join (x # y # ys) sep = x @ sep @ Join (y # ys) sep"

text \<open>
  \<open>strings.Contains\<close>, \<open>strings.Split\<close> and \<open>strings.SplitN(_, _, 2)\<close> are only
  called with a one-character separator in the source, so the separator is a \<open>char\<close>.
\<close>

definition Contains :: "string \<Rightarrow> char \<Rightarrow> bool" where
  "Contains s c = (c \<in> set s)"

fun Split_acc :: "char \<Rightarrow> string \<Rightarrow> string \<Rightarrow> string list" where
  "Split_acc sep acc [] = [acc]"
| "Split_acc sep acc (c # cs) =
     (if c = sep then acc # Split_acc sep [] cs else Split_acc sep (acc @ [c]) cs)"

definition Split :: "string \<Rightarrow> char \<Rightarrow> string list" where
  "Split s sep = Split_acc sep [] s"

definition SplitN2 :: "string \<Rightarrow> char \<Rightarrow> string list" where
  "SplitN2 s sep =
     (if sep \<in> set s
      then [takeWhile (\<lambda>c. c \<noteq> sep) s, tl (dropWhile (\<lambda>c. c \<noteq> sep) s)]
      else [s])"

definition Count :: "string \<Rightarrow> char \<Rightarrow> nat" where
  "Count s c = length (filter (\<lambda>d. d = c) s)"

definition isDigit :: "char \<Rightarrow> bool" where
  "isDigit c = (48 \<le> (of_char c :: nat) \<and> (of_char c :: nat) \<le> 57)"

definition digits_value :: "string \<Rightarrow> int" where
  "digits_value ds = foldl (\<lambda>a c. 10 * a + (int (of_char c) - 48)) 0 ds"

definition Atoi :: "string \<Rightarrow> int option" where
  \<comment> \<open>strconv.Atoi: an optional sign, then one or more decimal digits, within a 64-bit int;
      \<open>None\<close> stands for the returned error\<close>
  "Atoi s =
     (let neg = (s \<noteq> [] \<and> hd s = CHR ''-'');
          ds = (if s \<noteq> [] \<and> (hd s = CHR ''-'' \<or> hd s = CHR ''+'') then tl s else s)
      in if ds \<noteq> [] \<and> list_all isDigit ds
         then (let v = (if neg then - digits_value ds else digits_value ds)
               in if v < - (2 ^ 63) \<or> 2 ^ 63 - 1 < v then None else Some v)
         else None)"

section \<open>Tokens\<close>

datatype TokenType =
    TOKEN_ILLEGAL | TOKEN_EOF | TOKEN_NEWLINE | TOKEN_WHITESPACE
  | TOKEN_INSTRUCTION_FROM | TOKEN_INSTRUCTION_RUN | TOKEN_INSTRUCTION_CMD
  | TOKEN_INSTRUCTION_LABEL | TOKEN_INSTRUCTION_MAINTAINER | TOKEN_INSTRUCTION_EXPOSE
  | TOKEN_INSTRUCTION_ENV | TOKEN_INSTRUCTION_ADD | TOKEN_INSTRUCTION_COPY
  | TOKEN_INSTRUCTION_ENTRYPOINT | TOKEN_INSTRUCTION_VOLUME | TOKEN_INSTRUCTION_USER
  | TOKEN_INSTRUCTION_WORKDIR | TOKEN_INSTRUCTION_ARG | TOKEN_INSTRUCTION_ONBUILD
  | TOKEN_INSTRUCTION_STOPSIGNAL | TOKEN_INSTRUCTION_HEALTHCHECK | TOKEN_INSTRUCTION_SHELL
  | TOKEN_COMMENT | TOKEN_CONTINUATION | TOKEN_ESCAPEDCHAR | TOKEN_HEREDOC_START
  | TOKEN_HEREDOC_END
  | TOKEN_STRING | TOKEN_QUOTED_STRING | TOKEN_NUMBER | TOKEN_EQUALS | TOKEN_COLON
  | TOKEN_COMMA | TOKEN_LBRACKET | TOKEN_RBRACKET | TOKEN_VARIABLE
  | TOKEN_AS | TOKEN_STAGE_NAME
  | TOKEN_HEREDOC_CONTENT

text \<open>
  The numbering \<open>iota\<close> gives the constants. \<open>TOKEN_HEREDOC_CONTENT\<close> is used by the
  scanner and the parser but its declaration is not in the constant block of the source;
  it is placed after the declared ones, outside the instruction range.
\<close>

fun TokenType_iota :: "TokenType \<Rightarrow> nat" where
  "TokenType_iota TOKEN_ILLEGAL = 0"
| "TokenType_iota TOKEN_EOF = 1"
| "TokenType_iota TOKEN_NEWLINE = 2"
| "TokenType_iota TOKEN_WHITESPACE = 3"
| "TokenType_iota TOKEN_INSTRUCTION_FROM = 4"
| "TokenType_iota TOKEN_INSTRUCTION_RUN = 5"
| "TokenType_iota TOKEN_INSTRUCTION_CMD = 6"
| "TokenType_iota TOKEN_INSTRUCTION_LABEL = 7"
| "TokenType_iota TOKEN_INSTRUCTION_MAINTAINER = 8"
| "TokenType_iota TOKEN_INSTRUCTION_EXPOSE = 9"
| "TokenType_iota TOKEN_INSTRUCTION_ENV = 10"
| "TokenType_iota TOKEN_INSTRUCTION_ADD = 11"
| "TokenType_iota TOKEN_INSTRUCTION_COPY = 12"
| "TokenType_iota TOKEN_INSTRUCTION_ENTRYPOINT = 13"
| "TokenType_iota TOKEN_INSTRUCTION_VOLUME = 14"
| "TokenType_iota TOKEN_INSTRUCTION_USER = 15"
| "TokenType_iota TOKEN_INSTRUCTION_WORKDIR = 16"
| "TokenType_iota TOKEN_INSTRUCTION_ARG = 17"
| "TokenType_iota TOKEN_INSTRUCTION_ONBUILD = 18"
| "TokenType_iota TOKEN_INSTRUCTION_STOPSIGNAL = 19"
| "TokenType_iota TOKEN_INSTRUCTION_HEALTHCHECK = 20"
| "TokenType_iota TOKEN_INSTRUCTION_SHELL = 21"
| "TokenType_iota TOKEN_COMMENT = 22"
| "TokenType_iota TOKEN_CONTINUATION = 23"
| "TokenType_iota TOKEN_ESCAPEDCHAR = 24"
| "TokenType_iota TOKEN_HEREDOC_START = 25"
| "TokenType_iota TOKEN_HEREDOC_END = 26"
| "TokenType_iota TOKEN_STRING = 27"
| "TokenType_iota TOKEN_QUOTED_STRING = 28"
| "TokenType_iota TOKEN_NUMBER = 29"
| "TokenType_iota TOKEN_EQUALS = 30"
| "TokenType_iota TOKEN_COLON = 31"
| "TokenType_iota TOKEN_COMMA = 32"
| "TokenType_iota TOKEN_LBRACKET = 33"
| "TokenType_iota TOKEN_RBRACKET = 34"
| "TokenType_iota TOKEN_VARIABLE = 35"
| "TokenType_iota TOKEN_AS = 36"
| "TokenType_iota TOKEN_STAGE_NAME = 37"
| "TokenType_iota TOKEN_HEREDOC_CONTENT = 38"

record Token =
  tk_Type :: TokenType
  tk_Value :: string
  tk_Line :: int
  tk_Column :: int
  tk_Length :: int
  tk_Raw :: string

definition IsInstruction :: "Token \<Rightarrow> bool" where
  "IsInstruction t =
     (TokenType_iota TOKEN_INSTRUCTION_FROM \<le> TokenType_iota (tk_Type t)
      \<and> TokenType_iota (tk_Type t) \<le> TokenType_iota TOKEN_INSTRUCTION_SHELL)"

definition EOF_Token :: Token where
  \<comment> \<open>\<open>&Token{Type: TOKEN_EOF}\<close>: every other field has its zero value\<close>
  "EOF_Token = \<lparr>tk_Type = TOKEN_EOF, tk_Value = [], tk_Line = 0, tk_Column = 0,
                 tk_Length = 0, tk_Raw = []\<rparr>"

section \<open>Errors\<close>

datatype ErrorCode =
    CodeSyntaxError | CodeValidationError | CodeReferenceError | CodeInstructionError
  | CodeStageError | CodeVariableError | CodeIOError | CodeInternalError

record Position =
  pos_Line :: int
  pos_Column :: int

record DockerfileError =
  err_Code :: ErrorCode
  err_Position :: Position
  err_Message :: string
  err_Snippet :: string

text \<open>
  Only the fields the lexer and the instruction parser assign are kept (\<open>Offset\<close>,
  \<open>FilePath\<close>, \<open>Stage\<close>, \<open>Details\<close>, \<open>Hints\<close> and \<open>Cause\<close> keep their zero values
  everywhere). An \<open>error\<close> is \<open>io.EOF\<close>, a \<open>*DockerfileError\<close>, or an error made
  from a message by \<open>errors.New\<close> or \<open>fmt.Errorf\<close>. \<open>Panic\<close> stands for the run-time
  panic of a nil pointer dereference.
\<close>

datatype error = EOF | DockerfileErr DockerfileError | ErrorString string | Panic

definition ErrInvalidInstruction :: error where
  "ErrInvalidInstruction = ErrorString ''invalid instruction''"

section \<open>Lexer\<close>

text \<open>
  \<open>Scanner.Scan\<close> is not part of the source at hand (only the helper scanners below are),
  so the lexer takes what the scanner delivers as its input: the list of results of the
  successive calls of \<open>Scan\<close>, each a token or an error. Once the list is used up the
  scanner is at the end of its input and every further call returns \<open>io.EOF\<close>.
\<close>

type_synonym ScanResults = "(error + Token) list"

fun Scan :: "ScanResults \<Rightarrow> (error + Token) \<times> ScanResults" where
  "Scan [] = (Inl EOF, [])"
| "Scan (r # rs) = (r, rs)"

record Lexer =
  lx_scanner :: ScanResults
  lx_currentToken :: Token
  lx_peekToken :: Token
  lx_tokens :: "Token list"
  lx_errors :: "error list"
  lx_inHeredoc :: bool
  lx_heredocID :: string
  lx_lineTokens :: "Token list"

definition scan_failed :: "error \<Rightarrow> Lexer \<Rightarrow> Lexer" where
  \<comment> \<open>the \<open>err != nil\<close> branch of nextToken\<close>
  "scan_failed err l =
     (if err \<noteq> EOF then l\<lparr>lx_errors := lx_errors l @ [err], lx_peekToken := EOF_Token\<rparr>
      else l\<lparr>lx_peekToken := EOF_Token\<rparr>)"

definition accept_token :: "Token \<Rightarrow> Lexer \<Rightarrow> Lexer" where
  \<comment> \<open>the tail of nextToken: heredoc bookkeeping, then the token is recorded and peeked\<close>
  "accept_token token l =
     (let l1 = (if tk_Type token = TOKEN_HEREDOC_START
                then l\<lparr>lx_inHeredoc := True, lx_heredocID := tk_Value token\<rparr>
                else if lx_inHeredoc l \<and> tk_Type token = TOKEN_HEREDOC_END
                        \<and> tk_Value token = lx_heredocID l
                then l\<lparr>lx_inHeredoc := False\<rparr>
                else l)
      in l1\<lparr>lx_tokens := lx_tokens l1 @ [token], lx_peekToken := token\<rparr>)"

definition nextToken :: "Lexer \<Rightarrow> Lexer" where
  "nextToken l =
     (let l1 = l\<lparr>lx_currentToken := lx_peekToken l\<rparr>;
          l2 = l1\<lparr>lx_scanner := snd (Scan (lx_scanner l1))\<rparr>
      in case fst (Scan (lx_scanner l1)) of
           Inl err \<Rightarrow> scan_failed err l2
         | Inr token \<Rightarrow>
             if \<not> lx_inHeredoc l2 \<and> tk_Type token = TOKEN_WHITESPACE
             then (let l3 = l2\<lparr>lx_scanner := snd (Scan (lx_scanner l2))\<rparr>
                   in case fst (Scan (lx_scanner l2)) of
                        Inl err \<Rightarrow> scan_failed err l3
                      | Inr token' \<Rightarrow> accept_token token' l3)
             else accept_token token l2)"

definition NewLexer :: "ScanResults \<Rightarrow> Lexer" where
  \<comment> \<open>the two pointers of the fresh struct are nil; the two initial reads overwrite both,
      so the tokens standing in for nil are never observed\<close>
  "NewLexer r =
     nextToken (nextToken
       \<lparr>lx_scanner = r, lx_currentToken = EOF_Token, lx_peekToken = EOF_Token,
        lx_tokens = [], lx_errors = [], lx_inHeredoc = False, lx_heredocID = [],
        lx_lineTokens = []\<rparr>)"

definition NextToken :: "Lexer \<Rightarrow> Token \<times> Lexer" where
  "NextToken l = (lx_currentToken l, nextToken l)"

definition lex_measure :: "Lexer \<Rightarrow> nat" where
  \<comment> \<open>what is left to read: the scanner's results and the two buffered tokens\<close>
  "lex_measure l =
     length (lx_scanner l)
     + (if tk_Type (lx_peekToken l) = TOKEN_EOF then 0 else 1)
     + (if tk_Type (lx_currentToken l) = TOKEN_EOF then 0 else 1)"

lemma nextToken_measure_le: "lex_measure (nextToken l) \<le> lex_measure l"
  by (cases "lx_scanner l"; cases "snd (Scan (lx_scanner l))")
     (auto simp: nextToken_def lex_measure_def scan_failed_def accept_token_def EOF_Token_def
        Let_def split: sum.splits)

lemma nextToken_measure_less:
  "tk_Type (lx_currentToken l) \<noteq> TOKEN_EOF \<Longrightarrow> lex_measure (nextToken l) < lex_measure l"
  by (cases "lx_scanner l"; cases "snd (Scan (lx_scanner l))")
     (auto simp: nextToken_def lex_measure_def scan_failed_def accept_token_def EOF_Token_def
        Let_def split: sum.splits)

lemma lex_measure_lineTokens [simp]:
  "lex_measure (l\<lparr>lx_lineTokens := ts\<rparr>) = lex_measure l"
  by (simp add: lex_measure_def)

lemma lex_measure_errors [simp]:
  "lex_measure (l\<lparr>lx_errors := es\<rparr>) = lex_measure l"
  by (simp add: lex_measure_def)

function TokenizeLine_loop :: "bool \<Rightarrow> Lexer \<Rightarrow> Lexer" where
  "TokenizeLine_loop continuationMode l =
     (let token = fst (NextToken l);
          l1 = snd (NextToken l)
      in if tk_Type token = TOKEN_EOF then l1
         else (let l2 = l1\<lparr>lx_lineTokens := lx_lineTokens l1 @ [token]\<rparr>
               in if tk_Type token = TOKEN_CONTINUATION then TokenizeLine_loop True l2
                  else if tk_Type token = TOKEN_NEWLINE
                  then (if \<not> continuationMode then l2 else TokenizeLine_loop False l2)
                  else TokenizeLine_loop continuationMode l2))"
  by pat_completeness auto
termination
  by (relation "measure (\<lambda>(c, l). lex_measure l)")
     (auto simp: NextToken_def nextToken_measure_less)

declare TokenizeLine_loop.simps [simp del]

definition TokenizeLine :: "Lexer \<Rightarrow> Token list \<times> Lexer" where
  \<comment> \<open>the error result of the source is always nil\<close>
  "TokenizeLine l =
     (let l' = TokenizeLine_loop False (l\<lparr>lx_lineTokens := []\<rparr>)
      in (lx_lineTokens l', l'))"

record InstructionTokens =
  it_Instruction :: "Token option"
  it_Arguments :: "Token list"
  it_Comments :: "Token list"
  it_Raw :: "Token list"
  it_JSONForm :: bool

definition ProcessInstructionLine :: "Lexer \<Rightarrow> (error + InstructionTokens option) \<times> Lexer" where
  "ProcessInstructionLine l =
     (let tokens = fst (TokenizeLine l);
          l' = snd (TokenizeLine l)
      in if tokens = [] then (Inr None, l')
         else if tk_Type (hd tokens) = TOKEN_COMMENT then (Inr None, l')
         else if \<not> IsInstruction (hd tokens)
         then (Inl (DockerfileErr
                 \<lparr>err_Code = CodeSyntaxError,
                  err_Position = \<lparr>pos_Line = tk_Line (hd tokens),
                                  pos_Column = tk_Column (hd tokens)\<rparr>,
                  err_Message = ''Line must start with an instruction'',
                  err_Snippet = tk_Raw (hd tokens)\<rparr>), l')
         else (Inr (Some
                 \<lparr>it_Instruction = Some (hd tokens),
                  it_Arguments = filter (\<lambda>t. tk_Type t \<noteq> TOKEN_COMMENT
                                   \<and> tk_Type t \<noteq> TOKEN_NEWLINE
                                   \<and> tk_Type t \<noteq> TOKEN_CONTINUATION) (tl tokens),
                  it_Comments = filter (\<lambda>t. tk_Type t = TOKEN_COMMENT) (tl tokens),
                  it_Raw = tokens,
                  it_JSONForm = False\<rparr>), l'))"

fun IsJSONForm_from :: "Token list \<Rightarrow> bool" where
  "IsJSONForm_from [] = False"
| "IsJSONForm_from (t # ts) =
     (if tk_Type t = TOKEN_WHITESPACE then IsJSONForm_from ts
      else if tk_Value t = ''['' then True else False)"

definition IsJSONForm :: "Token list \<Rightarrow> bool" where
  \<comment> \<open>the loop starts at index 1; no function of the source calls it\<close>
  "IsJSONForm tokens = IsJSONForm_from (drop 1 tokens)"

definition GetInstructionValue :: "InstructionTokens \<Rightarrow> string" where
  "GetInstructionValue it =
     (case it_Instruction it of None \<Rightarrow> [] | Some t \<Rightarrow> tk_Value t)"

definition GetArgumentsAsString :: "InstructionTokens \<Rightarrow> string" where
  "GetArgumentsAsString it =
     Join (map tk_Value (filter (\<lambda>a. tk_Type a \<noteq> TOKEN_WHITESPACE) (it_Arguments it))) '' ''"

lemma TokenizeLine_loop_measure_le:
  "lex_measure (TokenizeLine_loop c l) \<le> lex_measure l"
proof (induction "lex_measure l" arbitrary: c l rule: less_induct)
  case less
  let ?l2 = "(nextToken l)\<lparr>lx_lineTokens := lx_lineTokens (nextToken l) @ [lx_currentToken l]\<rparr>"
  show ?case
  proof (cases "tk_Type (lx_currentToken l) = TOKEN_EOF")
    case True
    then show ?thesis
      by (subst TokenizeLine_loop.simps) (simp add: Let_def NextToken_def nextToken_measure_le)
  next
    case False
    then have lt: "lex_measure ?l2 < lex_measure l"
      using nextToken_measure_less by simp
    have "lex_measure (TokenizeLine_loop b ?l2) \<le> lex_measure l" for b
      using less.hyps [OF lt, of b] lt by simp
    then show ?thesis
      using lt False by (subst TokenizeLine_loop.simps) (simp add: Let_def NextToken_def)
  qed
qed

lemma TokenizeLine_loop_measure_less:
  assumes "tk_Type (lx_currentToken l) \<noteq> TOKEN_EOF"
  shows "lex_measure (TokenizeLine_loop c l) < lex_measure l"
proof -
  let ?l2 = "(nextToken l)\<lparr>lx_lineTokens := lx_lineTokens (nextToken l) @ [lx_currentToken l]\<rparr>"
  have less: "lex_measure ?l2 < lex_measure l"
    using nextToken_measure_less [OF assms] by simp
  have rec: "lex_measure (TokenizeLine_loop b ?l2) < lex_measure l" for b
    using TokenizeLine_loop_measure_le [of b ?l2] less by simp
  show ?thesis
    using assms less rec
    by (subst TokenizeLine_loop.simps) (simp add: Let_def NextToken_def)
qed

lemma ProcessInstructionLine_measure_less:
  "tk_Type (lx_currentToken l) \<noteq> TOKEN_EOF \<Longrightarrow>
   lex_measure (snd (ProcessInstructionLine l)) < lex_measure l"
  using TokenizeLine_loop_measure_less [of "l\<lparr>lx_lineTokens := []\<rparr>" False]
  by (simp add: ProcessInstructionLine_def TokenizeLine_def Let_def)

function skip_to_next_line :: "Lexer \<Rightarrow> Lexer" where
  \<comment> \<open>the inner loop of ProcessAllInstructions ("Skip to next line")\<close>
  "skip_to_next_line l =
     (if tk_Type (lx_currentToken l) \<noteq> TOKEN_EOF \<and> tk_Type (lx_currentToken l) \<noteq> TOKEN_NEWLINE
      then skip_to_next_line (snd (NextToken l))
      else l)"
  by pat_completeness auto
termination
  by (relation "measure lex_measure") (auto simp: NextToken_def nextToken_measure_less)

declare skip_to_next_line.simps [simp del]

lemma skip_to_next_line_measure_le: "lex_measure (skip_to_next_line l) \<le> lex_measure l"
proof (induction l rule: skip_to_next_line.induct)
  case (1 l)
  show ?case
    using "1.IH" nextToken_measure_le [of l]
    by (subst skip_to_next_line.simps) (auto simp: NextToken_def)
qed

function ProcessAllInstructions_loop ::
  "InstructionTokens list \<Rightarrow> Lexer \<Rightarrow> InstructionTokens list \<times> Lexer" where
  "ProcessAllInstructions_loop instructions l =
     (if tk_Type (lx_currentToken l) \<noteq> TOKEN_EOF
      then (case fst (ProcessInstructionLine l) of
              Inl err \<Rightarrow>
                ProcessAllInstructions_loop instructions
                  (skip_to_next_line
                     ((snd (ProcessInstructionLine l))
                        \<lparr>lx_errors := lx_errors (snd (ProcessInstructionLine l)) @ [err]\<rparr>))
            | Inr None \<Rightarrow>
                ProcessAllInstructions_loop instructions (snd (ProcessInstructionLine l))
            | Inr (Some inst) \<Rightarrow>
                ProcessAllInstructions_loop (instructions @ [inst])
                  (snd (ProcessInstructionLine l)))
      else (instructions, l))"
  by pat_completeness auto
termination
proof (relation "measure (\<lambda>(is, l). lex_measure l)", goal_cases)
  case 1
  show ?case by simp
next
  case (2 instructions l err)
  let ?l1 = "(snd (ProcessInstructionLine l))
               \<lparr>lx_errors := lx_errors (snd (ProcessInstructionLine l)) @ [err]\<rparr>"
  have "lex_measure (skip_to_next_line ?l1) \<le> lex_measure ?l1"
    by (rule skip_to_next_line_measure_le)
  with 2 ProcessInstructionLine_measure_less [of l] show ?case by simp
next
  case 3
  with ProcessInstructionLine_measure_less show ?case by simp
next
  case 4
  with ProcessInstructionLine_measure_less show ?case by simp
qed

declare ProcessAllInstructions_loop.simps [simp del]

definition ProcessAllInstructions ::
  "Lexer \<Rightarrow> (InstructionTokens list \<times> error list) \<times> Lexer" where
  "ProcessAllInstructions l =
     (let r = ProcessAllInstructions_loop [] l
      in ((fst r, lx_errors (snd r)), snd r))"

section \<open>Stages and variables\<close>

record StageInfo =
  st_Index :: int
  st_Name :: string
  st_BaseImage :: string
  st_StartLine :: int
  st_EndLine :: int

fun stageName_of :: "Token list \<Rightarrow> string" where
  \<comment> \<open>the first index \<open>i\<close> with an AS token and a token after it gives the name\<close>
  "stageName_of [] = []"
| "stageName_of [a] = []"
| "stageName_of (a # b # rest) =
     (if tk_Type a = TOKEN_AS then tk_Value b else stageName_of (b # rest))"

definition baseImage_of :: "Token list \<Rightarrow> string" where
  "baseImage_of args = (if args \<noteq> [] then tk_Value (hd args) else [])"

fun DetectStages_loop ::
  "InstructionTokens list \<Rightarrow> StageInfo list \<Rightarrow> StageInfo \<Rightarrow> int
     \<Rightarrow> StageInfo list \<times> StageInfo \<times> int" where
  "DetectStages_loop [] stages currentStage stageIndex = (stages, currentStage, stageIndex)"
| "DetectStages_loop (inst # rest) stages currentStage stageIndex =
     (if GetInstructionValue inst = ''FROM''
      then (case it_Instruction inst of
              None \<Rightarrow> DetectStages_loop rest stages currentStage stageIndex
            | Some from_tok \<Rightarrow>
                DetectStages_loop rest
                  (if 0 < st_StartLine currentStage
                   then stages @ [currentStage\<lparr>st_EndLine := tk_Line from_tok - 1\<rparr>]
                   else stages)
                  \<lparr>st_Index = stageIndex,
                   st_Name = stageName_of (it_Arguments inst),
                   st_BaseImage = baseImage_of (it_Arguments inst),
                   st_StartLine = tk_Line from_tok,
                   st_EndLine = 0\<rparr>
                  (stageIndex + 1))
      else DetectStages_loop rest stages currentStage stageIndex)"

text \<open>
  In the \<open>None\<close> branch above the instruction pointer is nil, for which
  \<open>GetInstructionValue\<close> returns the empty string: the branch is never taken.
\<close>

definition initial_stage :: StageInfo where
  "initial_stage = \<lparr>st_Index = 0, st_Name = [], st_BaseImage = [], st_StartLine = 0,
                    st_EndLine = 0\<rparr>"

definition stages_of :: "InstructionTokens list \<Rightarrow> error + StageInfo list" where
  \<comment> \<open>DetectStages after the instructions have been read without error\<close>
  "stages_of instructions =
     (case DetectStages_loop instructions [] initial_stage 0 of
        (stages, currentStage, stageIndex) \<Rightarrow>
          if 0 < st_StartLine currentStage
          then (if instructions \<noteq> []
                then (case it_Instruction (last instructions) of
                        None \<Rightarrow> Inl Panic
                      | Some t \<Rightarrow> Inr (stages @ [currentStage\<lparr>st_EndLine := tk_Line t\<rparr>]))
                else Inr (stages @ [currentStage]))
          else Inr stages)"

definition DetectStages :: "Lexer \<Rightarrow> (error + StageInfo list) \<times> Lexer" where
  "DetectStages l =
     (let instructions = fst (fst (ProcessAllInstructions l));
          errors = snd (fst (ProcessAllInstructions l));
          l' = snd (ProcessAllInstructions l)
      in if errors \<noteq> [] then (Inl (hd errors), l')
         else (stages_of instructions, l'))"

record VariableInfo =
  vi_Name :: string
  vi_Type :: string
  vi_Value :: string
  vi_Line :: int
  vi_Column :: int
  vi_StageIdx :: int

text \<open>
  A Go map is an association list with one entry per key (\<open>AList.update\<close> overwrites the
  value of a key already present). Go iterates a map in an order that is not specified and
  may differ between two runs over the same map. The order one run uses is a parameter of
  the model, a function that returns the entries in the order of iteration; every
  function that permutes the entries is a possible run.
\<close>

type_synonym GoMap = "(string \<times> string) list"
type_synonym RangeOrder = "GoMap \<Rightarrow> GoMap"


fun parseVariableDeclarations_loop :: "string list \<Rightarrow> GoMap \<Rightarrow> GoMap" where
  "parseVariableDeclarations_loop [] result = result"
| "parseVariableDeclarations_loop (part # parts) result =
     (if part = [] then parseVariableDeclarations_loop parts result
      else if Contains part (CHR ''='')
      then parseVariableDeclarations_loop parts
             (AList.update (SplitN2 part (CHR ''='') ! 0) (SplitN2 part (CHR ''='') ! 1) result)
      else parseVariableDeclarations_loop parts (AList.update part [] result))"

definition parseVariableDeclarations :: "string \<Rightarrow> GoMap" where
  "parseVariableDeclarations args =
     parseVariableDeclarations_loop (Split args (CHR '' '')) []"

fun stageIdx_of :: "StageInfo list \<Rightarrow> int \<Rightarrow> int \<Rightarrow> int" where
  \<comment> \<open>the index of the first stage whose line range contains the line, or -1\<close>
  "stageIdx_of [] i line = - 1"
| "stageIdx_of (stage # rest) i line =
     (if st_StartLine stage \<le> line \<and> (st_EndLine stage = 0 \<or> line \<le> st_EndLine stage)
      then i else stageIdx_of rest (i + 1) line)"

fun DetectVariables_loop ::
  "RangeOrder \<Rightarrow> StageInfo list \<Rightarrow> InstructionTokens list \<Rightarrow> VariableInfo list
     \<Rightarrow> VariableInfo list" where
  "DetectVariables_loop ord stages [] variables = variables"
| "DetectVariables_loop ord stages (inst # rest) variables =
     (if GetInstructionValue inst \<noteq> ''ARG'' \<and> GetInstructionValue inst \<noteq> ''ENV''
      then DetectVariables_loop ord stages rest variables
      else (case it_Instruction inst of
              None \<Rightarrow> DetectVariables_loop ord stages rest variables
            | Some tok \<Rightarrow>
                DetectVariables_loop ord stages rest
                  (variables @
                   map (\<lambda>(name, val).
                          \<lparr>vi_Name = name, vi_Type = GetInstructionValue inst, vi_Value = val,
                           vi_Line = tk_Line tok, vi_Column = tk_Column tok,
                           vi_StageIdx = stageIdx_of stages 0 (tk_Line tok)\<rparr>)
                       (ord (parseVariableDeclarations (GetArgumentsAsString inst))))))"

definition DetectVariables :: "RangeOrder \<Rightarrow> Lexer \<Rightarrow> VariableInfo list \<times> Lexer" where
  \<comment> \<open>DetectStages reads the instructions first; ProcessAllInstructions is then called a
      second time on the same lexer\<close>
  "DetectVariables ord l =
     (case fst (DetectStages l) of
        Inl err \<Rightarrow> ([], snd (DetectStages l))
      | Inr stages \<Rightarrow>
          (let l1 = snd (DetectStages l);
               instructions = fst (fst (ProcessAllInstructions l1))
           in (DetectVariables_loop ord stages instructions [],
               snd (ProcessAllInstructions l1))))"

section \<open>Decoding a JSON array of strings\<close>

text \<open>
  \<open>json.Unmarshal(data, &args)\<close> with \<open>args\<close> of type \<open>[]string\<close> is a call into Go's
  standard library. It succeeds exactly on the literal \<open>null\<close> and on a JSON array whose
  elements are strings or \<open>null\<close> (a \<open>null\<close> element leaves the empty string); every
  other input, malformed or of another JSON type, gives an error, which is all the caller
  looks at. \<open>None\<close> stands for that error.
\<close>

abbreviation dquote :: char where
  "dquote \<equiv> CHR 0x22"

abbreviation backslash :: char where
  "backslash \<equiv> CHR 0x5C"

definition json_ws :: "char \<Rightarrow> bool" where
  "json_ws c = (c = CHR 0x20 \<or> c = CHR 0x09 \<or> c = CHR 0x0A \<or> c = CHR 0x0D)"

definition skip_ws :: "string \<Rightarrow> string" where
  "skip_ws s = dropWhile json_ws s"

definition hex_digit :: "char \<Rightarrow> nat option" where
  "hex_digit c =
     (let n = (of_char c :: nat)
      in if 48 \<le> n \<and> n \<le> 57 then Some (n - 48)
         else if 97 \<le> n \<and> n \<le> 102 then Some (n - 87)
         else if 65 \<le> n \<and> n \<le> 70 then Some (n - 55)
         else None)"

definition hex4 :: "string \<Rightarrow> nat option" where
  "hex4 s =
     (case map hex_digit (take 4 s) of
        [Some a, Some b, Some c, Some d] \<Rightarrow> Some (((a * 16 + b) * 16 + c) * 16 + d)
      | _ \<Rightarrow> None)"

definition utf8_encode :: "nat \<Rightarrow> string" where
  "utf8_encode n =
     (if n < 128 then [char_of n]
      else if n < 2048 then [char_of (192 + n div 64), char_of (128 + n mod 64)]
      else if n < 65536
      then [char_of (224 + n div 4096), char_of (128 + (n div 64) mod 64),
            char_of (128 + n mod 64)]
      else [char_of (240 + n div 262144), char_of (128 + (n div 4096) mod 64),
            char_of (128 + (n div 64) mod 64), char_of (128 + n mod 64)])"

definition unescape :: "char \<Rightarrow> char option" where
  "unescape e =
     (if e = dquote \<or> e = backslash \<or> e = CHR ''/'' then Some e
      else if e = CHR ''b'' then Some (CHR 0x08)
      else if e = CHR ''f'' then Some (CHR 0x0C)
      else if e = CHR ''n'' then Some (CHR 0x0A)
      else if e = CHR ''r'' then Some (CHR 0x0D)
      else if e = CHR ''t'' then Some (CHR 0x09)
      else None)"

definition low_surrogate_after :: "string \<Rightarrow> nat option" where
  \<comment> \<open>the low surrogate of a second \<open>\\uXXXX\<close> escape, if one follows\<close>
  "low_surrogate_after s =
     (if take 2 s = [backslash, CHR ''u'']
      then (case hex4 (drop 2 s) of
              None \<Rightarrow> None
            | Some m \<Rightarrow> if 56320 \<le> m \<and> m < 57344 then Some m else None)
      else None)"

fun json_string :: "string \<Rightarrow> string \<Rightarrow> (string \<times> string) option" where
  \<comment> \<open>the text after an opening quote: the decoded string and what follows the closing quote\<close>
  "json_string acc [] = None"
| "json_string acc (c # cs) =
     (if c = dquote then Some (acc, cs)
      else if (of_char c :: nat) < 32 then None
      else if c = backslash
      then (case cs of
              [] \<Rightarrow> None
            | e # es \<Rightarrow>
                if e = CHR ''u''
                then (case hex4 es of
                        None \<Rightarrow> None
                      | Some n \<Rightarrow>
                          if 55296 \<le> n \<and> n < 56320
                          then (case low_surrogate_after (drop 4 es) of
                                  Some m \<Rightarrow>
                                    json_string
                                      (acc @ utf8_encode (65536 + (n - 55296) * 1024 + (m - 56320)))
                                      (drop 10 es)
                                | None \<Rightarrow> json_string (acc @ utf8_encode 65533) (drop 4 es))
                          else if 56320 \<le> n \<and> n < 57344
                          then json_string (acc @ utf8_encode 65533) (drop 4 es)
                          else json_string (acc @ utf8_encode n) (drop 4 es))
                else (case unescape e of
                        None \<Rightarrow> None
                      | Some d \<Rightarrow> json_string (acc @ [d]) es))
      else json_string (acc @ [c]) cs)"

lemma json_string_shorter:
  "json_string acc s = Some (v, rest) \<Longrightarrow> length rest < length s"
proof (induction acc s rule: json_string.induct)
  case (1 acc)
  then show ?case by simp
next
  case (2 acc c cs)
  show ?case
  proof (cases "c = dquote")
    case True
    with 2 show ?thesis by simp
  next
    case nq: False
    show ?thesis
    proof (cases "c = backslash")
      case False
      with nq "2.prems" have ok: "\<not> (of_char c :: nat) < 32" and
        r: "json_string (acc @ [c]) cs = Some (v, rest)"
        by (auto split: if_splits)
      from "2.IH"(6) [OF nq ok False r] show ?thesis by simp
    next
      case bs: True
      with nq "2.prems" have ok: "\<not> (of_char c :: nat) < 32"
        by (auto split: if_splits)
      from bs nq ok "2.prems" obtain e es where cs: "cs = e # es"
        by (cases cs) auto
      show ?thesis
      proof (cases "e = CHR ''u''")
        case False
        with bs nq ok cs "2.prems" obtain d where d: "unescape e = Some d"
          and r: "json_string (acc @ [d]) es = Some (v, rest)"
          by (auto split: option.splits)
        from "2.IH"(5) [OF nq ok bs cs False d r] cs show ?thesis by simp
      next
        case u: True
        with bs nq ok cs "2.prems" obtain n where n: "hex4 es = Some n"
          by (auto split: option.splits)
        show ?thesis
        proof (cases "55296 \<le> n \<and> n < 56320")
          case hi: True
          show ?thesis
          proof (cases "low_surrogate_after (drop 4 es)")
            case None
            with hi u bs nq ok cs n "2.prems"
            have r: "json_string (acc @ utf8_encode 65533) (drop 4 es) = Some (v, rest)"
              by (auto split: if_splits)
            from "2.IH"(1) [OF nq ok bs cs u n hi None r] cs show ?thesis by simp
          next
            case (Some m)
            with hi u bs nq ok cs n "2.prems"
            have r: "json_string
                       (acc @ utf8_encode (65536 + (n - 55296) * 1024 + (m - 56320)))
                       (drop 10 es) = Some (v, rest)"
              by (auto split: if_splits)
            from "2.IH"(2) [OF nq ok bs cs u n hi Some r] cs show ?thesis by simp
          qed
        next
          case nhi: False
          show ?thesis
          proof (cases "56320 \<le> n \<and> n < 57344")
            case True
            with nhi u bs nq ok cs n "2.prems"
            have r: "json_string (acc @ utf8_encode 65533) (drop 4 es) = Some (v, rest)"
              by (auto split: if_splits)
            from "2.IH"(3) [OF nq ok bs cs u n nhi True r] cs show ?thesis by simp
          next
            case False
            with nhi u bs nq ok cs n "2.prems"
            have r: "json_string (acc @ utf8_encode n) (drop 4 es) = Some (v, rest)"
              by (auto split: if_splits)
            from "2.IH"(4) [OF nq ok bs cs u n nhi False r] cs show ?thesis by simp
          qed
        qed
      qed
    qed
  qed
qed

definition json_element :: "string \<Rightarrow> (string \<times> string) option" where
  \<comment> \<open>one array element that a string slice accepts: a string, or null\<close>
  "json_element s =
     (if s \<noteq> [] \<and> hd s = dquote then json_string [] (tl s)
      else if take 4 s = ''null'' then Some ([], drop 4 s)
      else None)"

lemma json_element_shorter:
  "json_element s = Some (v, rest) \<Longrightarrow> length rest < length s"
  by (cases s) (auto simp: json_element_def dest: json_string_shorter split: if_splits)

function json_elements :: "string list \<Rightarrow> string \<Rightarrow> (string list \<times> string) option" where
  "json_elements acc s =
     (case json_element s of
        None \<Rightarrow> None
      | Some (v, rest) \<Rightarrow>
          (case skip_ws rest of
             [] \<Rightarrow> None
           | c # cs \<Rightarrow>
               if c = CHR '','' then json_elements (acc @ [v]) (skip_ws cs)
               else if c = CHR '']'' then Some (acc @ [v], cs)
               else None))"
  by pat_completeness auto
termination
proof (relation "measure (\<lambda>(acc, s). length s)", goal_cases)
  case 1
  show ?case by simp
next
  case (2 acc s x v rest c cs)
  have a: "length rest < length s"
    using 2 by (auto dest: json_element_shorter)
  have b: "length (skip_ws rest) \<le> length rest"
    by (simp add: skip_ws_def length_dropWhile_le)
  have c: "length (skip_ws cs) \<le> length cs"
    by (simp add: skip_ws_def length_dropWhile_le)
  from 2 have "length cs < length (skip_ws rest)" by simp
  with a b c show ?case by simp
qed

declare json_elements.simps [simp del]

definition Unmarshal :: "string \<Rightarrow> string list option" where
  "Unmarshal data =
     (let s = skip_ws data
      in if take 4 s = ''null'' \<and> skip_ws (drop 4 s) = [] then Some []
         else if s \<noteq> [] \<and> hd s = CHR ''[''
         then (let s1 = skip_ws (tl s)
               in if s1 \<noteq> [] \<and> hd s1 = CHR '']''
                  then (if skip_ws (tl s1) = [] then Some [] else None)
                  else (case json_elements [] s1 of
                          None \<Rightarrow> None
                        | Some (vs, rest) \<Rightarrow> if skip_ws rest = [] then Some vs else None))
         else None)"

section \<open>Instruction parser\<close>

record Range =
  rg_Start :: Position
  rg_End :: Position

record Heredoc =
  hd_Identifier :: string
  hd_Content :: string
  hd_Range :: Range
  hd_Delimiter :: string
  hd_StripLeadingTabs :: bool

text \<open>
  \<open>Flags\<close> is only written and looked up by key, so it is a map. The pointer to the parent
  stage is stored as it is passed in; it is an optional reference here.
\<close>

record Instruction =
  in_Command :: string
  in_Args :: "string list"
  in_Flags :: "string \<rightharpoonup> string"
  in_Range :: Range
  in_Raw :: string
  in_Comment :: string
  in_JSONForm :: bool
  in_Stage :: "nat option"
  in_Heredoc :: "Heredoc option"
  in_Dependencies :: "string list"

definition InstructionError :: "string \<Rightarrow> Position \<Rightarrow> error" where
  \<comment> \<open>\<open>&DockerfileError{Code: CodeInstructionError, Message: m, Position: p}\<close>\<close>
  "InstructionError m p =
     DockerfileErr \<lparr>err_Code = CodeInstructionError, err_Position = p, err_Message = m,
                    err_Snippet = []\<rparr>"

definition token_Position :: "Token \<Rightarrow> Position" where
  "token_Position t = \<lparr>pos_Line = tk_Line t, pos_Column = tk_Column t\<rparr>"

definition is_not_whitespace :: "Token \<Rightarrow> bool" where
  "is_not_whitespace t = (tk_Type t \<noteq> TOKEN_WHITESPACE)"

fun stage_flag :: "Token list \<Rightarrow> string option" where
  \<comment> \<open>the token after the first AS token that has a successor\<close>
  "stage_flag [] = None"
| "stage_flag [a] = None"
| "stage_flag (a # b # rest) =
     (if tk_Type a = TOKEN_AS then Some (tk_Value b) else stage_flag (b # rest))"

definition parseFromInstruction :: "InstructionTokens \<Rightarrow> Instruction \<Rightarrow> error + Instruction" where
  "parseFromInstruction tokens instruction =
     (let args = it_Arguments tokens
      in if args = []
         then Inl (InstructionError ''FROM instruction requires a base image''
                     (rg_Start (in_Range instruction)))
         else (let i1 = (case stage_flag args of
                           None \<Rightarrow> instruction
                         | Some stageName \<Rightarrow>
                             instruction\<lparr>in_Flags := (in_Flags instruction)(''stage'' \<mapsto> stageName)\<rparr>);
                   i2 = (case find (\<lambda>a. tk_Type a = TOKEN_STRING
                                         \<and> HasPrefix (tk_Value a) ''--platform='') args of
                           None \<Rightarrow> i1
                         | Some a \<Rightarrow>
                             i1\<lparr>in_Flags := (in_Flags i1)
                                   (''platform'' \<mapsto> TrimPrefix (tk_Value a) ''--platform='')\<rparr>);
                   i3 = (case find (\<lambda>a. tk_Type a = TOKEN_STRING
                                         \<and> \<not> HasPrefix (tk_Value a) ''--'') args of
                           None \<Rightarrow> i2
                         | Some a \<Rightarrow> i2\<lparr>in_Args := in_Args i2 @ [tk_Value a]\<rparr>)
               in Inr i3))"

definition parseJSONArrayForm :: "InstructionTokens \<Rightarrow> Instruction \<Rightarrow> error + Instruction" where
  \<comment> \<open>the text of the library's error, appended to the message in the source, is not modelled\<close>
  "parseJSONArrayForm tokens instruction =
     (let jsonStr = (case find is_not_whitespace (it_Arguments tokens) of
                       None \<Rightarrow> []
                     | Some token \<Rightarrow> tk_Raw token)
      in if jsonStr = []
         then Inl (InstructionError ''Missing JSON array argument''
                     (rg_Start (in_Range instruction)))
         else (case Unmarshal jsonStr of
                 None \<Rightarrow>
                   Inl (DockerfileErr
                          \<lparr>err_Code = CodeSyntaxError,
                           err_Position = rg_Start (in_Range instruction),
                           err_Message = ''Invalid JSON array: '',
                           err_Snippet = jsonStr\<rparr>)
               | Some args \<Rightarrow> Inr (instruction\<lparr>in_Args := args, in_JSONForm := True\<rparr>)))"

definition heredoc_of :: "Token list \<Rightarrow> Heredoc option" where
  \<comment> \<open>the "Check for heredoc" loop of parseRunInstruction over \<open>tokens.Raw\<close>\<close>
  "heredoc_of raw =
     (case find (\<lambda>t. tk_Type t = TOKEN_HEREDOC_START) raw of
        None \<Rightarrow> None
      | Some token \<Rightarrow>
          (let heredocContent =
                 (case find (\<lambda>t. tk_Type t = TOKEN_HEREDOC_CONTENT) raw of
                    None \<Rightarrow> []
                  | Some t \<Rightarrow> tk_Value t)
           in if heredocContent \<noteq> []
              then Some \<lparr>hd_Identifier = tk_Value token,
                         hd_Content = heredocContent,
                         hd_Range =
                           \<lparr>rg_Start = token_Position token,
                            rg_End = \<lparr>pos_Line = tk_Line token
                                                  + int (Count heredocContent newline) + 1,
                                      pos_Column = 0\<rparr>\<rparr>,
                         hd_Delimiter = tk_Value token,
                         hd_StripLeadingTabs = False\<rparr>
              else None))"

definition parseRunInstruction :: "InstructionTokens \<Rightarrow> Instruction \<Rightarrow> error + Instruction" where
  "parseRunInstruction tokens instruction =
     (if it_JSONForm tokens then parseJSONArrayForm tokens instruction
      else (let args = GetArgumentsAsString tokens
            in if args = []
               then Inl (InstructionError ''RUN instruction requires at least one argument''
                           (rg_Start (in_Range instruction)))
               else Inr ((case heredoc_of (it_Raw tokens) of
                            None \<Rightarrow> instruction
                          | Some h \<Rightarrow> instruction\<lparr>in_Heredoc := Some h\<rparr>)
                         \<lparr>in_Args := [args]\<rparr>)))"

definition parseCmdInstruction :: "InstructionTokens \<Rightarrow> Instruction \<Rightarrow> error + Instruction" where
  "parseCmdInstruction tokens instruction =
     (if it_JSONForm tokens then parseJSONArrayForm tokens instruction
      else (let args = GetArgumentsAsString tokens
            in if args = []
               then Inl (InstructionError ''CMD instruction requires at least one argument''
                           (rg_Start (in_Range instruction)))
               else Inr (instruction\<lparr>in_Args := [args]\<rparr>)))"

definition parseEntrypointInstruction ::
  "InstructionTokens \<Rightarrow> Instruction \<Rightarrow> error + Instruction" where
  "parseEntrypointInstruction tokens instruction = parseCmdInstruction tokens instruction"

record kv_state =
  kv_result :: GoMap
  kv_key :: string
  kv_value :: string
  kv_inQuote :: bool
  kv_quoteChar :: char
  kv_isKey :: bool
  kv_escaped :: bool

definition kv_add :: "char \<Rightarrow> kv_state \<Rightarrow> kv_state" where
  \<comment> \<open>\<open>if isKey { key += string(ch) } else { value += string(ch) }\<close>\<close>
  "kv_add ch st =
     (if kv_isKey st then st\<lparr>kv_key := kv_key st @ [ch]\<rparr>
      else st\<lparr>kv_value := kv_value st @ [ch]\<rparr>)"

definition kv_step :: "char \<Rightarrow> kv_state \<Rightarrow> kv_state" where
  "kv_step ch st =
     (if kv_escaped st then (kv_add ch st)\<lparr>kv_escaped := False\<rparr>
      else if ch = backslash then st\<lparr>kv_escaped := True\<rparr>
      else if ch = dquote \<or> ch = CHR 0x27
      then (if kv_inQuote st \<and> ch = kv_quoteChar st then st\<lparr>kv_inQuote := False\<rparr>
            else if \<not> kv_inQuote st then st\<lparr>kv_inQuote := True, kv_quoteChar := ch\<rparr>
            else kv_add ch st)
      else if ch = CHR ''=''
      then (if \<not> kv_inQuote st \<and> kv_isKey st then st\<lparr>kv_isKey := False\<rparr>
            else kv_add ch st)
      else if ch = CHR 0x20 \<or> ch = CHR 0x09
      then (if kv_inQuote st then kv_add ch st
            else if \<not> kv_isKey st \<and> kv_value st \<noteq> []
            then st\<lparr>kv_result := AList.update (kv_key st) (kv_value st) (kv_result st),
                    kv_key := [], kv_value := [], kv_isKey := True\<rparr>
            else st)
      else kv_add ch st)"

definition parseKeyValuePairs :: "string \<Rightarrow> GoMap" where
  "parseKeyValuePairs input =
     (let st = foldl (\<lambda>st ch. kv_step ch st)
                 \<lparr>kv_result = [], kv_key = [], kv_value = [], kv_inQuote = False,
                  kv_quoteChar = CHR 0x20, kv_isKey = True, kv_escaped = False\<rparr> input
      in if kv_key st \<noteq> [] then AList.update (kv_key st) (kv_value st) (kv_result st)
         else kv_result st)"

definition append_pairs :: "RangeOrder \<Rightarrow> GoMap \<Rightarrow> Instruction \<Rightarrow> Instruction" where
  \<comment> \<open>\<open>for k, v := range pairs { Args = append(Args, k+"="+v) }\<close>\<close>
  "append_pairs ord pairs instruction =
     instruction\<lparr>in_Args := in_Args instruction @ map (\<lambda>(k, v). k @ ''='' @ v) (ord pairs)\<rparr>"

definition parseLabelInstruction ::
  "RangeOrder \<Rightarrow> InstructionTokens \<Rightarrow> Instruction \<Rightarrow> error + Instruction" where
  "parseLabelInstruction ord tokens instruction =
     (let args = GetArgumentsAsString tokens
      in if args = []
         then Inl (InstructionError ''LABEL instruction requires at least one key-value pair''
                     (rg_Start (in_Range instruction)))
         else Inr (append_pairs ord (parseKeyValuePairs args) instruction))"

definition parseEnvInstruction ::
  "RangeOrder \<Rightarrow> InstructionTokens \<Rightarrow> Instruction \<Rightarrow> error + Instruction" where
  "parseEnvInstruction ord tokens instruction =
     (let args = GetArgumentsAsString tokens
      in if args = []
         then Inl (InstructionError ''ENV instruction requires at least one variable''
                     (rg_Start (in_Range instruction)))
         else Inr (append_pairs ord (parseKeyValuePairs args) instruction))"

definition port_of :: "string \<Rightarrow> string" where
  \<comment> \<open>the part of a port token before the first slash\<close>
  "port_of v = (if Contains v (CHR ''/'') then Split v (CHR ''/'') ! 0 else v)"

definition protocol_ok :: "string \<Rightarrow> bool" where
  "protocol_ok v =
     (if Contains v (CHR ''/'')
      then (Split v (CHR ''/'') ! 1 = ''tcp'' \<or> Split v (CHR ''/'') ! 1 = ''udp'')
      else True)"

fun parseExpose_loop :: "Token list \<Rightarrow> Instruction \<Rightarrow> error + Instruction" where
  "parseExpose_loop [] instruction = Inr instruction"
| "parseExpose_loop (token # rest) instruction =
     (if tk_Type token \<noteq> TOKEN_WHITESPACE
      then (if \<not> protocol_ok (tk_Value token)
            then Inl (InstructionError
                        (''Invalid protocol: '' @ Split (tk_Value token) (CHR ''/'') ! 1
                           @ ''. Must be tcp or udp'')
                        (token_Position token))
            else if Atoi (port_of (tk_Value token)) = None
            then Inl (InstructionError (''Invalid port number: '' @ port_of (tk_Value token))
                        (token_Position token))
            else parseExpose_loop rest
                   (instruction\<lparr>in_Args := in_Args instruction @ [tk_Value token]\<rparr>))
      else parseExpose_loop rest instruction)"

definition parseExposeInstruction :: "InstructionTokens \<Rightarrow> Instruction \<Rightarrow> error + Instruction" where
  "parseExposeInstruction tokens instruction =
     (if it_Arguments tokens = []
      then Inl (InstructionError ''EXPOSE instruction requires at least one port''
                  (rg_Start (in_Range instruction)))
      else parseExpose_loop (it_Arguments tokens) instruction)"

record addcopy_state =
  ac_args :: "string list"
  ac_hasChown :: bool
  ac_hasFrom :: bool
  ac_instruction :: Instruction

definition addcopy_step :: "addcopy_state \<Rightarrow> Token \<Rightarrow> addcopy_state" where
  \<comment> \<open>the body of the "Process flags" loop of parseAddCopyInstruction\<close>
  "addcopy_step st token =
     (let i = ac_instruction st
      in if tk_Type token = TOKEN_STRING \<and> HasPrefix (tk_Value token) ''--''
         then (if HasPrefix (tk_Value token) ''--chown=''
               then st\<lparr>ac_instruction :=
                          i\<lparr>in_Flags := (in_Flags i)
                                (''chown'' \<mapsto> TrimPrefix (tk_Value token) ''--chown='')\<rparr>,
                       ac_hasChown := True\<rparr>
               else if HasPrefix (tk_Value token) ''--from=''
               then st\<lparr>ac_instruction :=
                          i\<lparr>in_Flags := (in_Flags i)
                                (''from'' \<mapsto> TrimPrefix (tk_Value token) ''--from=''),
                            in_Dependencies :=
                              in_Dependencies i @ [TrimPrefix (tk_Value token) ''--from='']\<rparr>,
                       ac_hasFrom := True\<rparr>
               else if HasPrefix (tk_Value token) ''--chmod=''
               then st\<lparr>ac_instruction :=
                          i\<lparr>in_Flags := (in_Flags i)
                                (''chmod'' \<mapsto> TrimPrefix (tk_Value token) ''--chmod='')\<rparr>\<rparr>
               else st)
         else if tk_Type token \<noteq> TOKEN_WHITESPACE
         then st\<lparr>ac_args := ac_args st @ [tk_Value token]\<rparr>
         else st)"

definition parseAddCopyInstruction ::
  "InstructionTokens \<Rightarrow> Instruction \<Rightarrow> error + Instruction" where
  "parseAddCopyInstruction tokens instruction =
     (let st = foldl addcopy_step
                 \<lparr>ac_args = [], ac_hasChown = False, ac_hasFrom = False,
                  ac_instruction = instruction\<rparr> (it_Arguments tokens)
      in if length (ac_args st) < 2
         then Inl (InstructionError
                     (in_Command (ac_instruction st)
                        @ '' instruction requires at least source and destination'')
                     (rg_Start (in_Range (ac_instruction st))))
         else if in_Command (ac_instruction st) = ''ADD'' \<and> ac_hasFrom st
         then Inl (InstructionError ''ADD does not support the --from flag''
                     (rg_Start (in_Range (ac_instruction st))))
         else Inr ((ac_instruction st)\<lparr>in_Args := ac_args st\<rparr>))"

definition parseVolumeInstruction :: "InstructionTokens \<Rightarrow> Instruction \<Rightarrow> error + Instruction" where
  "parseVolumeInstruction tokens instruction =
     (if it_JSONForm tokens then parseJSONArrayForm tokens instruction
      else (let i = instruction\<lparr>in_Args := in_Args instruction
                       @ map tk_Value (filter is_not_whitespace (it_Arguments tokens))\<rparr>
            in if in_Args i = []
               then Inl (InstructionError ''VOLUME instruction requires at least one argument''
                           (rg_Start (in_Range i)))
               else Inr i))"

definition parseUserInstruction :: "InstructionTokens \<Rightarrow> Instruction \<Rightarrow> error + Instruction" where
  "parseUserInstruction tokens instruction =
     (let args = GetArgumentsAsString tokens
      in if args = []
         then Inl (InstructionError ''USER instruction requires a username or UID''
                     (rg_Start (in_Range instruction)))
         else Inr (instruction\<lparr>in_Args := [args]\<rparr>))"

definition parseWorkdirInstruction ::
  "InstructionTokens \<Rightarrow> Instruction \<Rightarrow> error + Instruction" where
  "parseWorkdirInstruction tokens instruction =
     (let args = GetArgumentsAsString tokens
      in if args = []
         then Inl (InstructionError ''WORKDIR instruction requires a path''
                     (rg_Start (in_Range instruction)))
         else Inr (instruction\<lparr>in_Args := [args]\<rparr>))"

definition parseArgInstruction :: "InstructionTokens \<Rightarrow> Instruction \<Rightarrow> error + Instruction" where
  "parseArgInstruction tokens instruction =
     (let args = GetArgumentsAsString tokens
      in if args = []
         then Inl (InstructionError ''ARG instruction requires a name''
                     (rg_Start (in_Range instruction)))
         else (let parts = SplitN2 args (CHR ''='');
                   i = instruction\<lparr>in_Args := [TrimSpace (parts ! 0)]\<rparr>
               in if 1 < length parts
                  then Inr (i\<lparr>in_Flags := (in_Flags i)(''default'' \<mapsto> parts ! 1)\<rparr>)
                  else Inr i))"

definition parseOnbuildInstruction ::
  "InstructionTokens \<Rightarrow> Instruction \<Rightarrow> error + Instruction" where
  "parseOnbuildInstruction tokens instruction =
     (let args = GetArgumentsAsString tokens
      in if args = []
         then Inl (InstructionError
                     ''ONBUILD instruction requires another instruction as argument''
                     (rg_Start (in_Range instruction)))
         else (let triggerInstruction =
                     (case find is_not_whitespace (it_Arguments tokens) of
                        None \<Rightarrow> []
                      | Some token \<Rightarrow> tk_Value token)
               in if triggerInstruction = ''ONBUILD''
                  then Inl (InstructionError ''ONBUILD cannot be nested (ONBUILD ONBUILD ...)''
                              (rg_Start (in_Range instruction)))
                  else if triggerInstruction = ''FROM''
                  then Inl (InstructionError ''ONBUILD cannot trigger FROM instruction''
                              (rg_Start (in_Range instruction)))
                  else Inr (instruction\<lparr>in_Args := [args]\<rparr>)))"

definition parseStopsignalInstruction ::
  "InstructionTokens \<Rightarrow> Instruction \<Rightarrow> error + Instruction" where
  "parseStopsignalInstruction tokens instruction =
     (let args = GetArgumentsAsString tokens
      in if args = []
         then Inl (InstructionError ''STOPSIGNAL instruction requires a signal''
                     (rg_Start (in_Range instruction)))
         else (let signal = TrimSpace args
               in if Atoi signal = None \<and> \<not> HasPrefix signal ''SIG''
                  then Inl (InstructionError (''Invalid signal format: '' @ signal)
                              (rg_Start (in_Range instruction)))
                  else Inr (instruction\<lparr>in_Args := [signal]\<rparr>)))"

record healthcheck_state =
  hc_args :: "string list"
  hc_cmdFound :: bool
  hc_Flags :: "string \<rightharpoonup> string"

fun healthcheck_loop :: "Token list \<Rightarrow> healthcheck_state \<Rightarrow> healthcheck_state" where
  \<comment> \<open>the "Process flags" loop of parseHealthcheckInstruction, from index \<open>i\<close> on\<close>
  "healthcheck_loop [] st = st"
| "healthcheck_loop (token # rest) st =
     (if tk_Type token = TOKEN_WHITESPACE then healthcheck_loop rest st
      else if HasPrefix (tk_Value token) ''--''
      then (case rest of
              [] \<Rightarrow> healthcheck_loop rest st
            | nxt # rest' \<Rightarrow>
                if tk_Type nxt \<noteq> TOKEN_WHITESPACE
                then healthcheck_loop rest'
                       (st\<lparr>hc_Flags := (hc_Flags st)
                              (TrimPrefix (tk_Value token) ''--'' \<mapsto> tk_Value nxt)\<rparr>)
                else healthcheck_loop rest st)
      else if tk_Value token = ''CMD''
      then st\<lparr>hc_cmdFound := True,
              hc_args := hc_args st
                @ [''CMD'',
                   TrimSpace (concat (map (\<lambda>t. tk_Value t @ '' '')
                                         (filter is_not_whitespace rest)))]\<rparr>
      else healthcheck_loop rest (st\<lparr>hc_args := hc_args st @ [tk_Value token]\<rparr>))"

definition parseHealthcheckInstruction ::
  "InstructionTokens \<Rightarrow> Instruction \<Rightarrow> error + Instruction" where
  "parseHealthcheckInstruction tokens instruction =
     (let firstArg = (case find is_not_whitespace (it_Arguments tokens) of
                        None \<Rightarrow> []
                      | Some token \<Rightarrow> tk_Value token)
      in if firstArg = ''NONE'' then Inr (instruction\<lparr>in_Args := [''NONE'']\<rparr>)
         else (let st = healthcheck_loop (it_Arguments tokens)
                          \<lparr>hc_args = [], hc_cmdFound = False,
                           hc_Flags = in_Flags instruction\<rparr>
               in if \<not> hc_cmdFound st \<and> firstArg \<noteq> ''NONE''
                  then Inl (InstructionError ''HEALTHCHECK requires CMD or NONE''
                              (rg_Start (in_Range instruction)))
                  else Inr (instruction\<lparr>in_Flags := hc_Flags st, in_Args := hc_args st\<rparr>)))"

definition parseShellInstruction :: "InstructionTokens \<Rightarrow> Instruction \<Rightarrow> error + Instruction" where
  "parseShellInstruction tokens instruction =
     (if \<not> it_JSONForm tokens
      then Inl (InstructionError ''SHELL instruction requires JSON array format''
                  (rg_Start (in_Range instruction)))
      else parseJSONArrayForm tokens instruction)"

definition comment_of :: "Token list \<Rightarrow> string" where
  \<comment> \<open>the "Extract comments" block of ParseInstruction\<close>
  "comment_of comments =
     (if comments \<noteq> []
      then TrimSuffix
             (concat (map (\<lambda>cmt. TrimSpace (TrimPrefix (tk_Value cmt) ''#'') @ [newline])
                          comments))
             [newline]
      else [])"

definition end_Position :: "Token list \<Rightarrow> Position" where
  \<comment> \<open>the "Set end position" block; the zero position when there is no raw token\<close>
  "end_Position raw =
     (if raw \<noteq> []
      then \<lparr>pos_Line = tk_Line (last raw),
            pos_Column = tk_Column (last raw) + int (length (tk_Value (last raw)))\<rparr>
      else \<lparr>pos_Line = 0, pos_Column = 0\<rparr>)"

definition new_Instruction :: "InstructionTokens \<Rightarrow> Token \<Rightarrow> nat option \<Rightarrow> Instruction" where
  \<comment> \<open>the instruction ParseInstruction builds before it dispatches on the command\<close>
  "new_Instruction tokens tok stage =
     \<lparr>in_Command = GetInstructionValue tokens,
      in_Args = [],
      in_Flags = Map.empty,
      in_Range = \<lparr>rg_Start = token_Position tok, rg_End = end_Position (it_Raw tokens)\<rparr>,
      in_Raw = GetArgumentsAsString tokens,
      in_Comment = comment_of (it_Comments tokens),
      in_JSONForm = it_JSONForm tokens,
      in_Stage = stage,
      in_Heredoc = None,
      in_Dependencies = []\<rparr>"

definition dispatch ::
  "RangeOrder \<Rightarrow> string \<Rightarrow> InstructionTokens \<Rightarrow> Instruction \<Rightarrow> error + Instruction" where
  \<comment> \<open>the \<open>switch command\<close> of ParseInstruction\<close>
  "dispatch ord command tokens instruction =
     (if command = ''FROM'' then parseFromInstruction tokens instruction
      else if command = ''RUN'' then parseRunInstruction tokens instruction
      else if command = ''CMD'' then parseCmdInstruction tokens instruction
      else if command = ''LABEL'' then parseLabelInstruction ord tokens instruction
      else if command = ''EXPOSE'' then parseExposeInstruction tokens instruction
      else if command = ''ENV'' then parseEnvInstruction ord tokens instruction
      else if command = ''ADD'' then parseAddCopyInstruction tokens instruction
      else if command = ''COPY'' then parseAddCopyInstruction tokens instruction
      else if command = ''ENTRYPOINT'' then parseEntrypointInstruction tokens instruction
      else if command = ''VOLUME'' then parseVolumeInstruction tokens instruction
      else if command = ''USER'' then parseUserInstruction tokens instruction
      else if command = ''WORKDIR'' then parseWorkdirInstruction tokens instruction
      else if command = ''ARG'' then parseArgInstruction tokens instruction
      else if command = ''ONBUILD'' then parseOnbuildInstruction tokens instruction
      else if command = ''STOPSIGNAL'' then parseStopsignalInstruction tokens instruction
      else if command = ''HEALTHCHECK'' then parseHealthcheckInstruction tokens instruction
      else if command = ''SHELL'' then parseShellInstruction tokens instruction
      else Inl (ErrorString (''unknown instruction: '' @ command)))"

definition ParseInstruction ::
  "RangeOrder \<Rightarrow> InstructionTokens option \<Rightarrow> nat option \<Rightarrow> error + Instruction" where
  "ParseInstruction ord tokens stage =
     (case tokens of
        None \<Rightarrow> Inl ErrInvalidInstruction
      | Some tks \<Rightarrow>
          (case it_Instruction tks of
             None \<Rightarrow> Inl ErrInvalidInstruction
           | Some tok \<Rightarrow>
               dispatch ord (GetInstructionValue tks) tks (new_Instruction tks tok stage)))"

section \<open>Scanner: heredoc content\<close>

text \<open>
  The reader is the text it has not delivered yet. \<open>ReadRune\<close> takes its first rune and
  \<open>UnreadRune\<close>, right after a \<open>ReadRune\<close>, puts that rune back. The reader is over a string
  in memory, so the only error of \<open>ReadRune\<close> is \<open>io.EOF\<close>.
\<close>

record Scanner =
  sc_reader :: string
  sc_position :: Position
  sc_char :: char
  sc_buffer :: string
  sc_peekBuffer :: string
  sc_inHeredoc :: bool
  sc_heredocWord :: string

definition scan :: "Scanner \<Rightarrow> error + Scanner" where
  \<comment> \<open>Modelled from the spec: the method \<open>scan\<close> of the scanner is not in the source at hand.
      The spec describes a character-level reader that maintains the current rune and tracks
      line and column: \<open>scan\<close> reads the next rune of the reader into \<open>char\<close> and advances the
      position; at the end of the input it returns \<open>io.EOF\<close>.\<close>
  "scan s =
     (case sc_reader s of
        [] \<Rightarrow> Inl EOF
      | c # cs \<Rightarrow>
          Inr (s\<lparr>sc_reader := cs, sc_char := c,
                 sc_position :=
                   (if c = newline
                    then \<lparr>pos_Line = pos_Line (sc_position s) + 1, pos_Column = 0\<rparr>
                    else \<lparr>pos_Line = pos_Line (sc_position s),
                          pos_Column = pos_Column (sc_position s) + 1\<rparr>)\<rparr>))"

text \<open>
  The loop of \<open>peekLine\<close> reads a rune and, unless the reader is at its end, puts it back in
  every branch: after a newline it stops, after any other rune it appends the rune to the
  peek buffer and goes round again with the reader where it was. A call that does not
  return has the value \<open>None\<close>.
\<close>

partial_function (option) peekLine_loop :: "Scanner \<Rightarrow> Scanner option" where
  "peekLine_loop s =
     (case sc_reader s of
        [] \<Rightarrow> Some s
      | ch # rest \<Rightarrow>
          if ch = newline then Some s
          else peekLine_loop (s\<lparr>sc_peekBuffer := sc_peekBuffer s @ [ch]\<rparr>))"

definition peekLine :: "Scanner \<Rightarrow> (string \<times> Scanner) option" where
  "peekLine s =
     map_option (\<lambda>s'. (sc_peekBuffer s', s')) (peekLine_loop (s\<lparr>sc_peekBuffer := []\<rparr>))"

fun scan_times :: "nat \<Rightarrow> Scanner \<Rightarrow> Scanner" where
  \<comment> \<open>\<open>for i := 0; i < n; i++ { s.scan() }\<close>: the error of \<open>scan\<close> is ignored\<close>
  "scan_times 0 s = s"
| "scan_times (Suc n) s =
     scan_times n (case scan s of Inl err \<Rightarrow> s | Inr s' \<Rightarrow> s')"

partial_function (option) scanHeredocContent_loop :: "Scanner \<Rightarrow> (error + Scanner) option" where
  "scanHeredocContent_loop s =
     (case scan s of
        Inl err \<Rightarrow> Some (Inl err)
      | Inr s1 \<Rightarrow>
          if sc_char s1 = newline
          then (case peekLine s1 of
                  None \<Rightarrow> None
                | Some (nextLine, s2) \<Rightarrow>
                    if TrimSpace nextLine = sc_heredocWord s2
                    then Some (Inr (scan_times (length (sc_heredocWord s2) + 1)
                                      (s2\<lparr>sc_inHeredoc := False\<rparr>)))
                    else scanHeredocContent_loop
                           (s2\<lparr>sc_buffer := sc_buffer s2 @ [sc_char s2]\<rparr>))
          else scanHeredocContent_loop (s1\<lparr>sc_buffer := sc_buffer s1 @ [sc_char s1]\<rparr>))"

definition scanHeredocContent :: "Scanner \<Rightarrow> (error + Token \<times> Scanner) option" where
  "scanHeredocContent s =
     (case scanHeredocContent_loop (s\<lparr>sc_buffer := []\<rparr>) of
        None \<Rightarrow> None
      | Some (Inl err) \<Rightarrow> Some (Inl err)
      | Some (Inr s') \<Rightarrow>
          Some (Inr (\<lparr>tk_Type = TOKEN_HEREDOC_CONTENT,
                      tk_Value = sc_buffer s',
                      tk_Line = pos_Line (sc_position s),
                      tk_Column = pos_Column (sc_position s),
                      tk_Length = int (length (sc_buffer s')),
                      tk_Raw = sc_buffer s'\<rparr>, s')))"

section \<open>Concrete inputs\<close>

definition scanned :: "TokenType \<Rightarrow> string \<Rightarrow> int \<Rightarrow> int \<Rightarrow> error + Token" where
  \<comment> \<open>a successful result of \<open>Scan\<close>: a token of the given type, text, line and column, with
      \<open>Raw\<close> and \<open>Length\<close> filled in from the text as the scanner's helpers do\<close>
  "scanned typ text line col =
     Inr \<lparr>tk_Type = typ, tk_Value = text, tk_Line = line, tk_Column = col,
          tk_Length = int (length text), tk_Raw = text\<rparr>"

definition lex_line :: "ScanResults \<Rightarrow> InstructionTokens option" where
  \<comment> \<open>the first logical line of an input as the lexer hands it to the parser: the
      InstructionTokens pointer returned by ProcessInstructionLine on a fresh lexer
      (nil when the line is empty, a comment, or in error)\<close>
  "lex_line r =
     (case fst (ProcessInstructionLine (NewLexer r)) of
        Inl err \<Rightarrow> None
      | Inr it \<Rightarrow> it)"

definition scan_CMD_json :: ScanResults where
  \<open>scan_CMD_json =
     [scanned TOKEN_INSTRUCTION_CMD ''CMD'' 1 1, scanned TOKEN_WHITESPACE '' '' 1 4,
      scanned TOKEN_STRING ''["a","b c","d"]'' 1 5]\<close>

definition scan_CMD_shell :: ScanResults where
  "scan_CMD_shell =
     [scanned TOKEN_INSTRUCTION_CMD ''CMD'' 1 1, scanned TOKEN_WHITESPACE '' '' 1 4,
      scanned TOKEN_STRING ''echo'' 1 5, scanned TOKEN_WHITESPACE '' '' 1 9,
      scanned TOKEN_STRING ''hi'' 1 10]"

definition scan_CMD_invalid_json :: ScanResults where
  "scan_CMD_invalid_json =
     [scanned TOKEN_INSTRUCTION_CMD ''CMD'' 1 1, scanned TOKEN_WHITESPACE '' '' 1 4,
      scanned TOKEN_STRING ''[invalid json'' 1 5]"

definition scan_COPY_from :: ScanResults where
  "scan_COPY_from =
     [scanned TOKEN_INSTRUCTION_COPY ''COPY'' 1 1, scanned TOKEN_WHITESPACE '' '' 1 5,
      scanned TOKEN_STRING ''--from=builder'' 1 6, scanned TOKEN_WHITESPACE '' '' 1 20,
      scanned TOKEN_STRING ''/src'' 1 21, scanned TOKEN_WHITESPACE '' '' 1 25,
      scanned TOKEN_STRING ''/dst'' 1 26]"

definition scan_ADD_from :: ScanResults where
  "scan_ADD_from =
     [scanned TOKEN_INSTRUCTION_ADD ''ADD'' 1 1, scanned TOKEN_WHITESPACE '' '' 1 4,
      scanned TOKEN_STRING ''--from=builder'' 1 5, scanned TOKEN_WHITESPACE '' '' 1 19,
      scanned TOKEN_STRING ''/src'' 1 20, scanned TOKEN_WHITESPACE '' '' 1 24,
      scanned TOKEN_STRING ''/dst'' 1 25]"

definition scan_EXPOSE :: ScanResults where
  "scan_EXPOSE =
     [scanned TOKEN_INSTRUCTION_EXPOSE ''EXPOSE'' 1 1, scanned TOKEN_WHITESPACE '' '' 1 7,
      scanned TOKEN_STRING ''8080/tcp'' 1 8, scanned TOKEN_WHITESPACE '' '' 1 16,
      scanned TOKEN_STRING ''9090/udp'' 1 17, scanned TOKEN_WHITESPACE '' '' 1 25,
      scanned TOKEN_NUMBER ''70000'' 1 26]"

definition scan_ONBUILD_ONBUILD :: ScanResults where
  "scan_ONBUILD_ONBUILD =
     [scanned TOKEN_INSTRUCTION_ONBUILD ''ONBUILD'' 1 1, scanned TOKEN_WHITESPACE '' '' 1 8,
      scanned TOKEN_INSTRUCTION_ONBUILD ''ONBUILD'' 1 9, scanned TOKEN_WHITESPACE '' '' 1 16,
      scanned TOKEN_INSTRUCTION_RUN ''RUN'' 1 17, scanned TOKEN_WHITESPACE '' '' 1 20,
      scanned TOKEN_STRING ''x'' 1 21]"

definition scan_ONBUILD_FROM :: ScanResults where
  "scan_ONBUILD_FROM =
     [scanned TOKEN_INSTRUCTION_ONBUILD ''ONBUILD'' 1 1, scanned TOKEN_WHITESPACE '' '' 1 8,
      scanned TOKEN_INSTRUCTION_FROM ''FROM'' 1 9, scanned TOKEN_WHITESPACE '' '' 1 13,
      scanned TOKEN_STRING ''scratch'' 1 14]"

definition scan_ONBUILD_RUN :: ScanResults where
  "scan_ONBUILD_RUN =
     [scanned TOKEN_INSTRUCTION_ONBUILD ''ONBUILD'' 1 1, scanned TOKEN_WHITESPACE '' '' 1 8,
      scanned TOKEN_INSTRUCTION_RUN ''RUN'' 1 9, scanned TOKEN_WHITESPACE '' '' 1 12,
      scanned TOKEN_STRING ''echo'' 1 13, scanned TOKEN_WHITESPACE '' '' 1 17,
      scanned TOKEN_STRING ''hi'' 1 18]"


definition scan_bad_then_good :: ScanResults where
  \<comment> \<open>three lines: \<open>foo\<close>, \<open>FROM alpine\<close>, \<open>RUN make\<close>\<close>
  "scan_bad_then_good =
     [scanned TOKEN_STRING ''foo'' 1 1, scanned TOKEN_NEWLINE [newline] 1 4,
      scanned TOKEN_INSTRUCTION_FROM ''FROM'' 2 1, scanned TOKEN_WHITESPACE '' '' 2 5,
      scanned TOKEN_STRING ''alpine'' 2 6, scanned TOKEN_NEWLINE [newline] 2 12,
      scanned TOKEN_INSTRUCTION_RUN ''RUN'' 3 1, scanned TOKEN_WHITESPACE '' '' 3 4,
      scanned TOKEN_STRING ''make'' 3 5, scanned TOKEN_NEWLINE [newline] 3 9]"

definition scan_FROM_ARG :: ScanResults where
  \<comment> \<open>two lines: \<open>FROM alpine\<close>, \<open>ARG VERSION=1\<close>\<close>
  "scan_FROM_ARG =
     [scanned TOKEN_INSTRUCTION_FROM ''FROM'' 1 1, scanned TOKEN_WHITESPACE '' '' 1 5,
      scanned TOKEN_STRING ''alpine'' 1 6, scanned TOKEN_NEWLINE [newline] 1 12,
      scanned TOKEN_INSTRUCTION_ARG ''ARG'' 2 1, scanned TOKEN_WHITESPACE '' '' 2 4,
      scanned TOKEN_STRING ''VERSION=1'' 2 5, scanned TOKEN_NEWLINE [newline] 2 14]"

definition scan_FROM_platform :: ScanResults where
  \<comment> \<open>one line: \<open>FROM --platform=linux/amd64 alpine AS builder\<close>\<close>
  "scan_FROM_platform =
     [scanned TOKEN_INSTRUCTION_FROM ''FROM'' 1 1, scanned TOKEN_WHITESPACE '' '' 1 5,
      scanned TOKEN_STRING ''--platform=linux/amd64'' 1 6, scanned TOKEN_WHITESPACE '' '' 1 28,
      scanned TOKEN_STRING ''alpine'' 1 29, scanned TOKEN_WHITESPACE '' '' 1 35,
      scanned TOKEN_AS ''AS'' 1 36, scanned TOKEN_WHITESPACE '' '' 1 38,
      scanned TOKEN_STRING ''builder'' 1 39, scanned TOKEN_NEWLINE [newline] 1 46]"


definition heredoc_scanner :: Scanner where
  \<comment> \<open>the scanner on \<open>RUN <<EOF\<close>, newline, \<open>echo one\<close>, newline, \<open>echo two\<close>, newline,
      \<open>EOF\<close>, after the opener \<open><<EOF\<close> has been read: the rest of the input is still in
      the reader\<close>
  "heredoc_scanner =
     \<lparr>sc_reader = [newline] @ ''echo one'' @ [newline] @ ''echo two'' @ [newline] @ ''EOF'',
      sc_position = \<lparr>pos_Line = 1, pos_Column = 9\<rparr>,
      sc_char = CHR ''F'',
      sc_buffer = [],
      sc_peekBuffer = [],
      sc_inHeredoc = True,
      sc_heredocWord = ''EOF''\<rparr>"

section \<open>Evaluation rules\<close>

lemmas string_defs = HasPrefix_def TrimPrefix_def HasSuffix_def TrimSuffix_def isSpace_def
  TrimSpace_def Contains_def Split_def SplitN2_def Count_def isDigit_def digits_value_def
  Atoi_def

lemmas lexer_defs = scan_failed_def accept_token_def nextToken_def NewLexer_def NextToken_def
  TokenizeLine_def ProcessInstructionLine_def IsInstruction_def EOF_Token_def
  GetInstructionValue_def GetArgumentsAsString_def TokenizeLine_loop.simps scanned_def
  lex_line_def Let_def

lemmas parser_defs = ParseInstruction_def dispatch_def new_Instruction_def comment_of_def
  end_Position_def token_Position_def InstructionError_def is_not_whitespace_def

section \<open>ONBUILD triggers\<close>

text \<open>
  Claim C9. Parsing \<open>ONBUILD ONBUILD RUN x\<close> fails with the nesting error, parsing
  \<open>ONBUILD FROM scratch\<close> fails with the error for the disallowed trigger \<open>FROM\<close>, and
  parsing \<open>ONBUILD RUN echo hi\<close> succeeds with \<open>Args = ["RUN echo hi"]\<close>. Each line goes
  through the lexer and then through \<open>ParseInstruction\<close>; the result does not depend on the
  stage passed in.
\<close>

theorem ONBUILD_triggers:
  "ParseInstruction ord (lex_line scan_ONBUILD_ONBUILD) stage
     = Inl (InstructionError ''ONBUILD cannot be nested (ONBUILD ONBUILD ...)''
              \<lparr>pos_Line = 1, pos_Column = 1\<rparr>)
   \<and> ParseInstruction ord (lex_line scan_ONBUILD_FROM) stage
     = Inl (InstructionError ''ONBUILD cannot trigger FROM instruction''
              \<lparr>pos_Line = 1, pos_Column = 1\<rparr>)
   \<and> map_sum id in_Args (ParseInstruction ord (lex_line scan_ONBUILD_RUN) stage)
     = Inr [''RUN echo hi'']"
proof (intro conjI)
  show "ParseInstruction ord (lex_line scan_ONBUILD_ONBUILD) stage
     = Inl (InstructionError ''ONBUILD cannot be nested (ONBUILD ONBUILD ...)''
              \<lparr>pos_Line = 1, pos_Column = 1\<rparr>)"
    by (simp add: lexer_defs parser_defs scan_ONBUILD_ONBUILD_def parseOnbuildInstruction_def)
  show "ParseInstruction ord (lex_line scan_ONBUILD_FROM) stage
     = Inl (InstructionError ''ONBUILD cannot trigger FROM instruction''
              \<lparr>pos_Line = 1, pos_Column = 1\<rparr>)"
    by (simp add: lexer_defs parser_defs scan_ONBUILD_FROM_def parseOnbuildInstruction_def)
  show "map_sum id in_Args (ParseInstruction ord (lex_line scan_ONBUILD_RUN) stage)
     = Inr [''RUN echo hi'']"
    by (simp add: lexer_defs parser_defs scan_ONBUILD_RUN_def parseOnbuildInstruction_def)
qed

section \<open>The --from flag of COPY and ADD\<close>

text \<open>
  Claim C4. For \<open>COPY --from=builder /src /dst\<close> parsing succeeds, the flag \<open>from\<close> is
  \<open>builder\<close>, the positional arguments are the source and the destination, and
  \<open>Dependencies\<close> contains \<open>builder\<close> (it is exactly \<open>["builder"]\<close>). For the same
  arguments under \<open>ADD\<close> parsing fails with an error of code \<open>CodeInstructionError\<close> whose
  message cites the \<open>--from\<close> flag.
\<close>

theorem COPY_from_ADD_from:
  "map_sum id (\<lambda>i. (in_Dependencies i, in_Args i, in_Flags i ''from''))
       (ParseInstruction ord (lex_line scan_COPY_from) stage)
     = Inr ([''builder''], [''/src'', ''/dst''], Some ''builder'')
   \<and> ParseInstruction ord (lex_line scan_ADD_from) stage
     = Inl (DockerfileErr
              \<lparr>err_Code = CodeInstructionError,
               err_Position = \<lparr>pos_Line = 1, pos_Column = 1\<rparr>,
               err_Message = ''ADD does not support the --from flag'',
               err_Snippet = []\<rparr>)"
proof (intro conjI)
  show "map_sum id (\<lambda>i. (in_Dependencies i, in_Args i, in_Flags i ''from''))
       (ParseInstruction ord (lex_line scan_COPY_from) stage)
     = Inr ([''builder''], [''/src'', ''/dst''], Some ''builder'')"
    by (simp add: lexer_defs parser_defs string_defs scan_COPY_from_def
          parseAddCopyInstruction_def addcopy_step_def)
  show "ParseInstruction ord (lex_line scan_ADD_from) stage
     = Inl (DockerfileErr
              \<lparr>err_Code = CodeInstructionError,
               err_Position = \<lparr>pos_Line = 1, pos_Column = 1\<rparr>,
               err_Message = ''ADD does not support the --from flag'',
               err_Snippet = []\<rparr>)"
    by (simp add: lexer_defs parser_defs string_defs scan_ADD_from_def
          parseAddCopyInstruction_def addcopy_step_def)
qed

lemmas pai_defs = ProcessAllInstructions_def ProcessAllInstructions_loop.simps
  skip_to_next_line.simps

lemmas stage_defs = DetectStages_def stages_of_def baseImage_of_def initial_stage_def

section \<open>JSON form of CMD\<close>

text \<open>
  \<open>ProcessInstructionLine\<close> builds its \<open>InstructionTokens\<close> without the field \<open>JSONForm\<close>,
  which therefore is false for every line the lexer returns; \<open>IsJSONForm\<close> is never called.
\<close>

lemma ProcessInstructionLine_JSONForm_False:
  "fst (ProcessInstructionLine l) = Inr (Some it) \<Longrightarrow> \<not> it_JSONForm it"
  by (auto simp: ProcessInstructionLine_def Let_def split: if_splits)

text \<open>
  What \<open>ParseInstruction\<close> does with the same tokens once the field is set by hand: the
  array is decoded, and the malformed array is a syntax error.
\<close>

lemma CMD_with_JSONForm_set:
  \<open>map_sum id in_Args
      (ParseInstruction ord
         (map_option (\<lambda>t. t\<lparr>it_JSONForm := True\<rparr>) (lex_line scan_CMD_json)) stage)
     = Inr [''a'', ''b c'', ''d'']
   \<and> map_sum id in_Args
       (ParseInstruction ord
          (map_option (\<lambda>t. t\<lparr>it_JSONForm := True\<rparr>) (lex_line scan_CMD_invalid_json)) stage)
     = Inl (DockerfileErr
              \<lparr>err_Code = CodeSyntaxError,
               err_Position = \<lparr>pos_Line = 1, pos_Column = 1\<rparr>,
               err_Message = ''Invalid JSON array: '',
               err_Snippet = ''[invalid json''\<rparr>)\<close>
  by code_simp

text \<open>
  Claim C1. For \<open>CMD ["a","b c","d"]\<close> the claim expects the decoded arguments
  \<open>["a","b c","d"]\<close> in JSON form, and for \<open>CMD [invalid json\<close> an error of code
  \<open>CodeSyntaxError\<close>. On the lines as the lexer delivers them \<open>ParseInstruction\<close> takes the
  shell form in both cases: the first line gives one argument, the text of the whole
  array, with \<open>JSONForm\<close> false, and the second line is accepted with the argument
  \<open>[invalid json\<close>. Only the shell-form part of the claim, \<open>CMD echo hi\<close> giving
  \<open>["echo hi"]\<close>, is what the code does.
\<close>

theorem CMD_json_form_not_detected:
  \<open>map_sum id (\<lambda>i. (in_Args i, in_JSONForm i))
      (ParseInstruction ord (lex_line scan_CMD_json) stage)
     = Inr ([''["a","b c","d"]''], False)
   \<and> map_sum id in_Args (ParseInstruction ord (lex_line scan_CMD_invalid_json) stage)
     = Inr [''[invalid json'']
   \<and> map_sum id in_Args (ParseInstruction ord (lex_line scan_CMD_shell) stage)
     = Inr [''echo hi'']\<close>
  by code_simp

section \<open>Heredoc content\<close>

text \<open>
  \<open>peekLine\<close> returns only when the reader is at its end or at a newline. On any other
  rune its loop does not advance the reader, so it does not return.
\<close>

lemma peekLine_loop_returns:
  assumes "peekLine_loop s = Some s'"
  shows "sc_reader s = [] \<or> hd (sc_reader s) = newline"
proof (rule peekLine_loop.raw_induct
         [where P = "\<lambda>x y. sc_reader x = [] \<or> hd (sc_reader x) = newline", OF _ assms],
       goal_cases)
  case (1 f x y)
  show ?case
  proof (cases "sc_reader x")
    case Nil
    then show ?thesis by simp
  next
    case (Cons ch rest)
    show ?thesis
    proof (cases "ch = newline")
      case True
      with Cons show ?thesis by simp
    next
      case False
      with Cons 1(2) have "f (x\<lparr>sc_peekBuffer := sc_peekBuffer x @ [ch]\<rparr>) = Some y"
        by simp
      from 1(1) [OF this] show ?thesis by simp
    qed
  qed
qed

lemma peekLine_diverges:
  assumes "sc_reader s = ch # rest" and "ch \<noteq> newline"
  shows "peekLine s = None"
proof -
  have "peekLine_loop (s\<lparr>sc_peekBuffer := []\<rparr>) = None"
  proof (cases "peekLine_loop (s\<lparr>sc_peekBuffer := []\<rparr>)")
    case None
    then show ?thesis .
  next
    case (Some s')
    from peekLine_loop_returns [OF Some] assms show ?thesis by simp
  qed
  then show ?thesis by (simp add: peekLine_def)
qed

lemma scanHeredocContent_loop_diverges:
  assumes "sc_reader s = pre @ newline # ch # rest"
    and "newline \<notin> set pre" and "ch \<noteq> newline"
  shows "scanHeredocContent_loop s = None"
  using assms
proof (induction pre arbitrary: s)
  case Nil
  then show ?case
    by (subst scanHeredocContent_loop.simps)
       (simp add: scan_def peekLine_diverges [where ch = ch and rest = rest])
next
  case (Cons c pre)
  let ?s1 = "s\<lparr>sc_reader := pre @ newline # ch # rest, sc_char := c,
               sc_position := \<lparr>pos_Line = pos_Line (sc_position s),
                                pos_Column = pos_Column (sc_position s) + 1\<rparr>\<rparr>"
  have "scanHeredocContent_loop (?s1\<lparr>sc_buffer := sc_buffer ?s1 @ [sc_char ?s1]\<rparr>) = None"
    using Cons.prems by (intro Cons.IH) auto
  moreover from Cons.prems have "c \<noteq> newline"
    by auto
  ultimately show ?case
    using Cons.prems by (subst scanHeredocContent_loop.simps) (simp add: scan_def)
qed

text \<open>
  Claim C2. For \<open>RUN <<EOF\<close> followed by the lines \<open>echo one\<close>, \<open>echo two\<close> and \<open>EOF\<close>
  the claim expects one instruction whose heredoc content is the two lines. Scanning the
  heredoc content of this input does not return: at the first newline \<open>peekLine\<close> is called
  with the reader in front of \<open>echo one\<close>. No token for the content, and so no
  instruction, is produced.
\<close>

theorem heredoc_scan_never_returns: "scanHeredocContent heredoc_scanner = None"
proof -
  have "scanHeredocContent_loop (heredoc_scanner\<lparr>sc_buffer := []\<rparr>) = None"
    by (rule scanHeredocContent_loop_diverges [where pre = "[]" and ch = "CHR ''e''"])
       (simp_all add: heredoc_scanner_def)
  then show ?thesis by (simp add: scanHeredocContent_def)
qed

section \<open>Recovery after a malformed line\<close>

text \<open>
  Claim C3. After a malformed line the claim expects the InstructionTokens of every later
  well-formed line. For the three lines \<open>foo\<close>, \<open>FROM alpine\<close>, \<open>RUN make\<close> the code
  returns no InstructionTokens at all and three errors: \<open>TokenizeLine\<close> has already
  consumed the newline of the malformed line, so the loop that skips to the next line
  discards the tokens of \<open>FROM alpine\<close> up to its newline; that newline is then read as a
  line of its own, is reported as a second error, and the same happens to \<open>RUN make\<close>.
\<close>

theorem bad_line_swallows_following_lines:
  "fst (ProcessAllInstructions (NewLexer scan_bad_then_good)) =
     ([],
      [DockerfileErr
         \<lparr>err_Code = CodeSyntaxError,
          err_Position = \<lparr>pos_Line = 1, pos_Column = 1\<rparr>,
          err_Message = ''Line must start with an instruction'',
          err_Snippet = ''foo''\<rparr>,
       DockerfileErr
         \<lparr>err_Code = CodeSyntaxError,
          err_Position = \<lparr>pos_Line = 2, pos_Column = 12\<rparr>,
          err_Message = ''Line must start with an instruction'',
          err_Snippet = [newline]\<rparr>,
       DockerfileErr
         \<lparr>err_Code = CodeSyntaxError,
          err_Position = \<lparr>pos_Line = 3, pos_Column = 9\<rparr>,
          err_Message = ''Line must start with an instruction'',
          err_Snippet = [newline]\<rparr>])"
  by code_simp

section \<open>Variables\<close>

text \<open>
  \<open>ProcessAllInstructions\<close> stops with the current token at the end of the input, and
  started there it returns no instruction.
\<close>

lemma ProcessAllInstructions_loop_at_EOF:
  "tk_Type (lx_currentToken l) = TOKEN_EOF \<Longrightarrow> ProcessAllInstructions_loop acc l = (acc, l)"
  by (subst ProcessAllInstructions_loop.simps) simp

lemma ProcessAllInstructions_loop_ends_at_EOF:
  "tk_Type (lx_currentToken (snd (ProcessAllInstructions_loop acc l))) = TOKEN_EOF"
proof (induction acc l rule: ProcessAllInstructions_loop.induct)
  case (1 instructions l)
  show ?case
  proof (cases "tk_Type (lx_currentToken l) = TOKEN_EOF")
    case True
    then show ?thesis by (simp add: ProcessAllInstructions_loop_at_EOF)
  next
    case False
    show ?thesis
    proof (cases "fst (ProcessInstructionLine l)")
      case (Inl err)
      with False "1.IH"(1) [OF False Inl] show ?thesis
        by (subst ProcessAllInstructions_loop.simps) simp
    next
      case (Inr r)
      show ?thesis
      proof (cases r)
        case None
        with False Inr "1.IH"(2) [OF False Inr None] show ?thesis
          by (subst ProcessAllInstructions_loop.simps) simp
      next
        case (Some inst)
        with False Inr "1.IH"(3) [OF False Inr Some] show ?thesis
          by (subst ProcessAllInstructions_loop.simps) simp
      qed
    qed
  qed
qed

text \<open>
  \<open>DetectVariables\<close> calls \<open>DetectStages\<close>, which reads the lexer to its end, and then
  \<open>ProcessAllInstructions\<close> on the same lexer: there is no instruction left to look at,
  whatever the input.
\<close>

lemma DetectVariables_always_empty: "fst (DetectVariables ord l) = []"
proof (cases "fst (DetectStages l)")
  case (Inl err)
  then show ?thesis by (simp add: DetectVariables_def)
next
  case (Inr stages)
  have l1: "snd (DetectStages l) = snd (ProcessAllInstructions_loop [] l)"
    by (simp add: DetectStages_def ProcessAllInstructions_def Let_def)
  have "fst (fst (ProcessAllInstructions (snd (DetectStages l)))) = []"
    unfolding l1
    by (simp add: ProcessAllInstructions_def Let_def ProcessAllInstructions_loop_at_EOF
          ProcessAllInstructions_loop_ends_at_EOF)
  with Inr show ?thesis by (simp add: DetectVariables_def Let_def)
qed

text \<open>
  Claim C5. For every ARG or ENV instruction the claim expects an entry in the result of
  \<open>DetectVariables\<close>. For the two lines \<open>FROM alpine\<close>, \<open>ARG VERSION=1\<close> the result is
  empty.
\<close>

theorem DetectVariables_finds_nothing:
  "fst (DetectVariables ord (NewLexer scan_FROM_ARG)) = []"
  by (simp add: lexer_defs pai_defs stage_defs scan_FROM_ARG_def DetectVariables_def)

section \<open>Stages\<close>

text \<open>
  Claim C6. The claim expects the base image of a stage to be the first argument of FROM
  that is not a flag. For \<open>FROM --platform=linux/amd64 alpine AS builder\<close> the stage that
  \<open>DetectStages\<close> returns has the flag as its base image: the code takes the first
  argument. The other fields are as the claim says.
\<close>

theorem DetectStages_takes_flag_as_base_image:
  "fst (DetectStages (NewLexer scan_FROM_platform)) =
     Inr [\<lparr>st_Index = 0, st_Name = ''builder'', st_BaseImage = ''--platform=linux/amd64'',
           st_StartLine = 1, st_EndLine = 1\<rparr>]"
  by (simp add: lexer_defs pai_defs stage_defs scan_FROM_platform_def)

section \<open>EXPOSE ports\<close>

definition port_accepted :: "Token \<Rightarrow> bool" where
  \<comment> \<open>the protocol suffix, if there is one, is tcp or udp, and the part before the slash
      parses as an integer\<close>
  "port_accepted t = (protocol_ok (tk_Value t) \<and> Atoi (port_of (tk_Value t)) \<noteq> None)"

definition port_error :: "Token \<Rightarrow> error" where
  \<comment> \<open>the error for a port token that is not accepted\<close>
  "port_error t =
     (if protocol_ok (tk_Value t)
      then InstructionError (''Invalid port number: '' @ port_of (tk_Value t)) (token_Position t)
      else InstructionError
             (''Invalid protocol: '' @ Split (tk_Value t) (CHR ''/'') ! 1 @ ''. Must be tcp or udp'')
             (token_Position t))"

definition scan_EXPOSE_sctp :: ScanResults where
  \<comment> \<open>\<open>EXPOSE 53/sctp\<close>\<close>
  "scan_EXPOSE_sctp =
     [scanned TOKEN_INSTRUCTION_EXPOSE ''EXPOSE'' 1 1, scanned TOKEN_WHITESPACE '' '' 1 7,
      scanned TOKEN_STRING ''53/sctp'' 1 8]"

definition scan_EXPOSE_http :: ScanResults where
  \<comment> \<open>\<open>EXPOSE http\<close>\<close>
  "scan_EXPOSE_http =
     [scanned TOKEN_INSTRUCTION_EXPOSE ''EXPOSE'' 1 1, scanned TOKEN_WHITESPACE '' '' 1 7,
      scanned TOKEN_STRING ''http'' 1 8]"

text \<open>
  The loop over the port tokens stops at the first token that is not accepted and returns
  its error; without such a token every token that is not whitespace is appended to
  \<open>Args\<close>.
\<close>

lemma parseExpose_loop_eq:
  "parseExpose_loop args instruction =
     (case find (\<lambda>t. is_not_whitespace t \<and> \<not> port_accepted t) args of
        None \<Rightarrow>
          Inr (instruction\<lparr>in_Args := in_Args instruction
                 @ map tk_Value (filter is_not_whitespace args)\<rparr>)
      | Some t \<Rightarrow> Inl (port_error t))"
  by (induction args arbitrary: instruction)
     (auto simp: is_not_whitespace_def port_accepted_def port_error_def split: option.splits)

text \<open>
  What the code does on the line of claim C7 and on two lines it rejects: for
  \<open>EXPOSE 8080/tcp 9090/udp 70000\<close> parsing succeeds with the three ports as arguments
  (\<open>70000\<close> is accepted, there is no check of the range 1 to 65535), \<open>EXPOSE 53/sctp\<close> is
  rejected for its protocol, and \<open>EXPOSE http\<close> is rejected with the error "Invalid port
  number". In general \<open>parseExposeInstruction\<close> requires one argument, fails with the error
  of the first port token that is not accepted, and otherwise succeeds.
\<close>

lemma EXPOSE_accepted_and_rejected:
  "map_sum id in_Args (ParseInstruction ord (lex_line scan_EXPOSE) stage)
     = Inr [''8080/tcp'', ''9090/udp'', ''70000'']
   \<and> map_sum id in_Args (ParseInstruction ord (lex_line scan_EXPOSE_sctp) stage)
     = Inl (InstructionError ''Invalid protocol: sctp. Must be tcp or udp''
              \<lparr>pos_Line = 1, pos_Column = 8\<rparr>)
   \<and> map_sum id in_Args (ParseInstruction ord (lex_line scan_EXPOSE_http) stage)
     = Inl (InstructionError ''Invalid port number: http''
              \<lparr>pos_Line = 1, pos_Column = 8\<rparr>)
   \<and> parseExposeInstruction tokens instruction =
       (if it_Arguments tokens = []
        then Inl (InstructionError ''EXPOSE instruction requires at least one port''
                    (rg_Start (in_Range instruction)))
        else (case find (\<lambda>t. is_not_whitespace t \<and> \<not> port_accepted t) (it_Arguments tokens) of
                None \<Rightarrow>
                  Inr (instruction\<lparr>in_Args := in_Args instruction
                         @ map tk_Value (filter is_not_whitespace (it_Arguments tokens))\<rparr>)
              | Some t \<Rightarrow> Inl (port_error t)))"
proof (intro conjI)
  show "map_sum id in_Args (ParseInstruction ord (lex_line scan_EXPOSE) stage)
     = Inr [''8080/tcp'', ''9090/udp'', ''70000'']"
    by code_simp
  show "map_sum id in_Args (ParseInstruction ord (lex_line scan_EXPOSE_sctp) stage)
     = Inl (InstructionError ''Invalid protocol: sctp. Must be tcp or udp''
              \<lparr>pos_Line = 1, pos_Column = 8\<rparr>)"
    by code_simp
  show "map_sum id in_Args (ParseInstruction ord (lex_line scan_EXPOSE_http) stage)
     = Inl (InstructionError ''Invalid port number: http''
              \<lparr>pos_Line = 1, pos_Column = 8\<rparr>)"
    by code_simp
  show "parseExposeInstruction tokens instruction =
       (if it_Arguments tokens = []
        then Inl (InstructionError ''EXPOSE instruction requires at least one port''
                    (rg_Start (in_Range instruction)))
        else (case find (\<lambda>t. is_not_whitespace t \<and> \<not> port_accepted t) (it_Arguments tokens) of
                None \<Rightarrow>
                  Inr (instruction\<lparr>in_Args := in_Args instruction
                         @ map tk_Value (filter is_not_whitespace (it_Arguments tokens))\<rparr>)
              | Some t \<Rightarrow> Inl (port_error t)))"
    by (simp add: parseExposeInstruction_def parseExpose_loop_eq)
qed

definition scan_EXPOSE_tcp_sctp :: ScanResults where
  \<comment> \<open>\<open>EXPOSE 8080/tcp/sctp\<close>\<close>
  "scan_EXPOSE_tcp_sctp =
     [scanned TOKEN_INSTRUCTION_EXPOSE ''EXPOSE'' 1 1, scanned TOKEN_WHITESPACE '' '' 1 7,
      scanned TOKEN_STRING ''8080/tcp/sctp'' 1 8]"

text \<open>
  Claim C7. The claim expects every protocol suffix other than tcp or udp to be rejected.
  The code splits the port token at every slash and compares only the second part with
  tcp and udp: for \<open>EXPOSE 8080/tcp/sctp\<close>, whose suffix after the port number is
  \<open>tcp/sctp\<close>, parsing succeeds and the token is taken as an argument. The other parts
  of the claim are what the code does.
\<close>

theorem EXPOSE_suffix_after_second_slash_not_checked:
  "map_sum id in_Args (ParseInstruction ord (lex_line scan_EXPOSE_tcp_sctp) stage)
     = Inr [''8080/tcp/sctp'']"
  by code_simp

section \<open>Stage indices\<close>


definition Instruction_Line :: "InstructionTokens \<Rightarrow> int" where
  \<comment> \<open>\<open>inst.Instruction.Line\<close>, the line of the instruction token\<close>
  "Instruction_Line inst = (case it_Instruction inst of None \<Rightarrow> 0 | Some t \<Rightarrow> tk_Line t)"






definition line_ok :: "Token \<Rightarrow> bool" where
  \<comment> \<open>a buffered token is the end-of-input token of the lexer or a token of the scanner\<close>
  "line_ok t = (if t = EOF_Token then True else 0 < tk_Line t)"

definition result_ok :: "error + Token \<Rightarrow> bool" where
  \<comment> \<open>the scanner numbers lines from 1 (\<open>NewScanner\<close> starts at \<open>Line: 1\<close>)\<close>
  "result_ok r = (case r of Inl err \<Rightarrow> True | Inr t \<Rightarrow> 0 < tk_Line t)"

definition lines_ok :: "Lexer \<Rightarrow> bool" where
  \<comment> \<open>invariant of the lexer: every token it holds or will read has a positive line\<close>
  "lines_ok l = (line_ok (lx_currentToken l) \<and> line_ok (lx_peekToken l)
                 \<and> list_all result_ok (lx_scanner l))"

lemma lines_ok_nextToken: "lines_ok l \<Longrightarrow> lines_ok (nextToken l)"
  by (cases "lx_scanner l"; cases "snd (Scan (lx_scanner l))")
     (auto simp: lines_ok_def nextToken_def scan_failed_def accept_token_def line_ok_def
        result_ok_def Let_def split: sum.splits)

lemma line_ok_not_EOF: "line_ok t \<Longrightarrow> tk_Type t \<noteq> TOKEN_EOF \<Longrightarrow> 0 < tk_Line t"
  by (auto simp: line_ok_def EOF_Token_def split: if_splits)

lemma lines_ok_TokenizeLine_loop:
  "lines_ok l \<Longrightarrow> list_all (\<lambda>t. 0 < tk_Line t) (lx_lineTokens l) \<Longrightarrow>
   lines_ok (TokenizeLine_loop c l)
   \<and> list_all (\<lambda>t. 0 < tk_Line t) (lx_lineTokens (TokenizeLine_loop c l))"
proof (induction "lex_measure l" arbitrary: c l rule: less_induct)
  case less
  let ?l2 = "(nextToken l)\<lparr>lx_lineTokens := lx_lineTokens (nextToken l) @ [lx_currentToken l]\<rparr>"
  have n: "lines_ok (nextToken l)"
    using less.prems(1) by (rule lines_ok_nextToken)
  have lt: "lx_lineTokens (nextToken l) = lx_lineTokens l"
    by (cases "lx_scanner l"; cases "snd (Scan (lx_scanner l))")
       (auto simp: nextToken_def scan_failed_def accept_token_def Let_def split: sum.splits)
  show ?case
  proof (cases "tk_Type (lx_currentToken l) = TOKEN_EOF")
    case True
    with n lt less.prems(2) show ?thesis
      by (subst (1 2) TokenizeLine_loop.simps) (simp add: Let_def NextToken_def)
  next
    case False
    then have m: "lex_measure ?l2 < lex_measure l"
      using nextToken_measure_less by simp
    from False less.prems(1) have "0 < tk_Line (lx_currentToken l)"
      by (auto simp: lines_ok_def dest: line_ok_not_EOF)
    with less.prems(2) lt have p2: "list_all (\<lambda>t. 0 < tk_Line t) (lx_lineTokens ?l2)"
      by simp
    from n have o2: "lines_ok ?l2"
      by (simp add: lines_ok_def)
    note IH = less.hyps [OF m o2 p2]
    show ?thesis
      using False IH [of True] IH [of False] IH [of c] o2 p2
      by (subst (1 2) TokenizeLine_loop.simps) (simp add: Let_def NextToken_def)
  qed
qed

lemma lines_ok_ProcessInstructionLine:
  assumes "lines_ok l"
  shows "lines_ok (snd (ProcessInstructionLine l))"
    and "fst (ProcessInstructionLine l) = Inr (Some it) \<Longrightarrow> 0 < Instruction_Line it"
proof -
  have ok0: "lines_ok (l\<lparr>lx_lineTokens := []\<rparr>)"
    using assms by (simp add: lines_ok_def)
  from lines_ok_TokenizeLine_loop [OF ok0, of False]
  have a: "lines_ok (TokenizeLine_loop False (l\<lparr>lx_lineTokens := []\<rparr>))"
    and b: "list_all (\<lambda>t. 0 < tk_Line t)
              (lx_lineTokens (TokenizeLine_loop False (l\<lparr>lx_lineTokens := []\<rparr>)))"
    by simp_all
  from a show "lines_ok (snd (ProcessInstructionLine l))"
    by (simp add: ProcessInstructionLine_def TokenizeLine_def Let_def)
  assume "fst (ProcessInstructionLine l) = Inr (Some it)"
  with b show "0 < Instruction_Line it"
    by (cases "lx_lineTokens (TokenizeLine_loop False (l\<lparr>lx_lineTokens := []\<rparr>))")
       (auto simp: ProcessInstructionLine_def TokenizeLine_def Let_def Instruction_Line_def
          split: if_splits)
qed

lemma lines_ok_skip_to_next_line: "lines_ok l \<Longrightarrow> lines_ok (skip_to_next_line l)"
proof (induction l rule: skip_to_next_line.induct)
  case (1 l)
  show ?case
  proof (cases "tk_Type (lx_currentToken l) \<noteq> TOKEN_EOF
                \<and> tk_Type (lx_currentToken l) \<noteq> TOKEN_NEWLINE")
    case True
    with "1.IH" [OF True] "1.prems" lines_ok_nextToken [of l] show ?thesis
      by (subst skip_to_next_line.simps) (simp add: NextToken_def)
  next
    case False
    with "1.prems" show ?thesis
      by (subst skip_to_next_line.simps) auto
  qed
qed

lemma ProcessAllInstructions_loop_lines:
  "lines_ok l \<Longrightarrow> list_all (\<lambda>inst. 0 < Instruction_Line inst) acc \<Longrightarrow>
   list_all (\<lambda>inst. 0 < Instruction_Line inst) (fst (ProcessAllInstructions_loop acc l))"
proof (induction acc l rule: ProcessAllInstructions_loop.induct)
  case (1 instructions l)
  note ok1 = lines_ok_ProcessInstructionLine(1) [OF "1.prems"(1)]
  show ?case
  proof (cases "tk_Type (lx_currentToken l) = TOKEN_EOF")
    case True
    with "1.prems" show ?thesis by (simp add: ProcessAllInstructions_loop_at_EOF)
  next
    case False
    show ?thesis
    proof (cases "fst (ProcessInstructionLine l)")
      case (Inl err)
      have "lines_ok (skip_to_next_line
              ((snd (ProcessInstructionLine l))
                 \<lparr>lx_errors := lx_errors (snd (ProcessInstructionLine l)) @ [err]\<rparr>))"
        using ok1 by (intro lines_ok_skip_to_next_line) (simp add: lines_ok_def)
      from "1.IH"(1) [OF False Inl this "1.prems"(2)] False Inl show ?thesis
        by (subst ProcessAllInstructions_loop.simps) simp
    next
      case (Inr r)
      show ?thesis
      proof (cases r)
        case None
        from "1.IH"(2) [OF False Inr None ok1 "1.prems"(2)] False Inr None show ?thesis
          by (subst ProcessAllInstructions_loop.simps) simp
      next
        case (Some inst)
        from Inr Some have "0 < Instruction_Line inst"
          using lines_ok_ProcessInstructionLine(2) [OF "1.prems"(1)] by simp
        with "1.prems"(2) have "list_all (\<lambda>inst. 0 < Instruction_Line inst) (instructions @ [inst])"
          by simp
        from "1.IH"(3) [OF False Inr Some ok1 this] False Inr Some show ?thesis
          by (subst ProcessAllInstructions_loop.simps) simp
      qed
    qed
  qed
qed

lemma lines_ok_NewLexer: "list_all result_ok r \<Longrightarrow> lines_ok (NewLexer r)"
  unfolding NewLexer_def
  by (intro lines_ok_nextToken) (simp add: lines_ok_def line_ok_def)

text \<open>
  DetectStages returns stages whenever the lexer reports no error: every instruction the
  lexer returns has its instruction token, so the last stage can always be closed.
\<close>

lemma stages_of_returns:
  assumes "list_all (\<lambda>inst. 0 < Instruction_Line inst) insts"
  shows "\<exists>stages. stages_of insts = Inr stages"
proof (cases "insts = []")
  case True
  then show ?thesis
    by (simp add: stages_of_def initial_stage_def)
next
  case False
  then have "last insts \<in> set insts"
    by (rule last_in_set)
  with assms have "0 < Instruction_Line (last insts)"
    by (simp add: list_all_iff)
  then obtain tok where "it_Instruction (last insts) = Some tok"
    by (cases "it_Instruction (last insts)") (auto simp: Instruction_Line_def)
  then show ?thesis
    by (auto simp: stages_of_def split: prod.splits)
qed

lemma DetectStages_returns_stages:
  assumes "list_all result_ok r"
    and "snd (fst (ProcessAllInstructions (NewLexer r))) = []"
  shows "\<exists>stages. fst (DetectStages (NewLexer r)) = Inr stages"
proof -
  have "list_all (\<lambda>inst. 0 < Instruction_Line inst)
          (fst (fst (ProcessAllInstructions (NewLexer r))))"
    using ProcessAllInstructions_loop_lines [OF lines_ok_NewLexer [OF assms(1)], of "[]"]
    by (simp add: ProcessAllInstructions_def Let_def)
  from stages_of_returns [OF this] assms(2) show ?thesis
    by (simp add: DetectStages_def Let_def)
qed



section \<open>Determinism of the parser\<close>












end
